theory Spec2Isabelle
  imports Main "HOL-Library.AList"
begin

section \<open>Exceptions\<close>

text \<open>
  Every \<^verbatim>\<open>raise\<close> of the two modules, and every failure of a Python built-in
  operation they use, is a value. \<open>RuntimeError\<close> carries the message of the source.
  \<open>Foreign\<close> is an exception raised inside a collaborator whose code is outside
  \<^verbatim>\<open>mergekit/plan.py\<close> and \<^verbatim>\<open>mergekit/merge.py\<close> (configuration reader,
  merge-method registry, architecture lookup, executor); it carries that
  collaborator's message.
\<close>

datatype type_error =
    UnexpectedKeyword string
  | MultipleValues string
  | TooManyPositional
  | MissingArguments "string list"
  | NoneNotSubscriptable
  | NoneNotIterable

datatype exception =
    RuntimeError string
  | TypeError type_error
  | IndexError
  | ZeroDivisionError
  | ValueError string
  | AttributeError string
  | Foreign string

section \<open>Data model\<close>

text \<open>
  A number as the planner produces it: an \<^verbatim>\<open>int\<close> literal, or the \<^verbatim>\<open>float\<close>
  that Python's true division \<^verbatim>\<open>a / b\<close> of two ints returns. The quotient is kept
  symbolic: nothing here depends on its rounding.
\<close>

datatype number = IntNum int | TrueDiv int int

definition py_truediv :: "int \<Rightarrow> int \<Rightarrow> exception + number" where
  "py_truediv a b = (if b = 0 then Inl ZeroDivisionError else Inr (TrueDiv a b))"

datatype param_value = NoneValue | NumValue number | StrValue string

datatype ModelReference = ModelReference string "string option"

text \<open>
  A weight-name template such as \<^verbatim>\<open>model.layers.{idx}.mlp.weight\<close>, held as its literal
  pieces and its \<^verbatim>\<open>{idx}\<close> replacement fields; \<open>format_idx\<close> is
  \<^verbatim>\<open>name_format.format(idx=i)\<close>.
\<close>

datatype format_piece = Lit string | IdxField

type_synonym name_format = "format_piece list"

definition digit_char :: "nat \<Rightarrow> char" where
  "digit_char d = char_of (of_char (CHR ''0'') + d)"

fun str_nat :: "nat \<Rightarrow> string" where
  "str_nat n = (if n < 10 then [digit_char n] else str_nat (n div 10) @ [digit_char (n mod 10)])"

declare str_nat.simps [simp del]

definition str_int :: "int \<Rightarrow> string" where
  "str_int i = (if i < 0 then CHR ''-'' # str_nat (nat (- i)) else str_nat (nat i))"

fun format_piece_str :: "int \<Rightarrow> format_piece \<Rightarrow> string" where
  "format_piece_str i (Lit s) = s"
| "format_piece_str i IdxField = str_int i"

definition format_idx :: "name_format \<Rightarrow> int \<Rightarrow> string" where
  "format_idx name_format i = concat (map (format_piece_str i) name_format)"

record ArchitectureInfo =
  pre_weights :: "string list"
  post_weights :: "string list"
  layer_weight_formats :: "name_format list"
  embed_weights :: "string list"
  num_layers_config_key :: string

record InputSliceDefinition =
  model :: string
  layer_range :: "int \<times> int"

record OutputSliceDefinition =
  sources :: "InputSliceDefinition list"

record InputModelDefinition =
  model_in :: string

record MergeConfiguration =
  merge_method :: string
  base_model :: "string option"
  dtype :: "string option"
  models :: "InputModelDefinition list option"
  slices :: "OutputSliceDefinition list option"
  parameters :: "(string \<times> param_value) list option"

record MergeOptions =
  allow_crimes :: bool
  transformers_cache :: "string option"
  lora_merge_cache :: "string option"
  cuda :: bool
  low_cpu_memory :: bool
  out_shard_size :: int
  copy_tokenizer :: bool
  clone_tensors :: bool
  trust_remote_code :: bool
  random_seed :: "int option"
  lazy_unpickle :: bool

text \<open>Python truthiness of an optional list: \<^verbatim>\<open>None\<close> and \<^verbatim>\<open>[]\<close> are false.\<close>

fun truthy :: "'a list option \<Rightarrow> bool" where
  "truthy None = False"
| "truthy (Some xs) = (xs \<noteq> [])"

subsection \<open>Tasks\<close>

datatype TensorWriterTask = TensorWriterTask string int

datatype BuildTokenizer = BuildTokenizer MergeConfiguration bool

datatype GatherTensors = GatherTensors "(string \<times> string) list" "string option"

datatype MergeMethod =
    RegisteredMethod string
  | TokenizerPermutationMerge BuildTokenizer

text \<open>
  \<open>MergeTask\<close> is what \<^verbatim>\<open>tensor_merge_method.make_task(...)\<close> returns: the method that
  made it and the five keyword arguments it was made from.
\<close>

datatype MergeTask =
  MergeTask MergeMethod string GatherTensors
    "(string \<times> param_value) list"
    "(string \<times> (string \<times> param_value) list) list"
    "ModelReference option"

datatype Task =
    SaveTensor string MergeTask TensorWriterTask bool
  | FinalizeModel "Task list" TensorWriterTask
  | TokenizerTask BuildTokenizer

fun is_save :: "Task \<Rightarrow> bool" where
  "is_save (SaveTensor n m w c) = True"
| "is_save _ = False"


fun is_tokenizer :: "Task \<Rightarrow> bool" where
  "is_tokenizer (TokenizerTask b) = True"
| "is_tokenizer _ = False"

fun tensor_name :: "Task \<Rightarrow> string option" where
  "tensor_name (SaveTensor n m w c) = Some n"
| "tensor_name _ = None"

fun save_method :: "Task \<Rightarrow> MergeMethod option" where
  "save_method (SaveTensor n (MergeTask mm out g ps tps b) w c) = Some mm"
| "save_method _ = None"

fun merge_parameters :: "Task \<Rightarrow> (string \<times> param_value) list" where
  "merge_parameters (SaveTensor n (MergeTask mm out g ps tps b) w c) = ps"
| "merge_parameters _ = []"

fun tensor_save_tasks :: "Task \<Rightarrow> Task list" where
  "tensor_save_tasks (FinalizeModel ts w) = ts"
| "tensor_save_tasks _ = []"

subsection \<open>Configuration reader\<close>

text \<open>
  Modelled from the spec: \<^verbatim>\<open>ConfigReader\<close> (module \<^verbatim>\<open>mergekit.config\<close>) is not among
  the sources. It is the scope of section 4.5 (configuration, tensor name, output slice,
  input slices) together with the interpolation fraction \<open>t\<close>; its constructor keywords
  are those \<^verbatim>\<open>plan.py\<close> uses, and each \<^verbatim>\<open>for_...\<close>/\<^verbatim>\<open>with_t\<close> method returns
  a reader with one coordinate replaced.
\<close>

record ConfigReader =
  reader_config :: MergeConfiguration
  t :: number
  reader_tensor_name :: "string option"
  slice_out :: "OutputSliceDefinition option"
  slices_in :: "InputSliceDefinition list option"

definition for_in_slices :: "ConfigReader \<Rightarrow> InputSliceDefinition list option \<Rightarrow> ConfigReader" where
  "for_in_slices r s = r\<lparr>slices_in := s\<rparr>"

definition for_tensor :: "ConfigReader \<Rightarrow> string \<Rightarrow> ConfigReader" where
  "for_tensor r n = r\<lparr>reader_tensor_name := Some n\<rparr>"

definition with_t :: "ConfigReader \<Rightarrow> number \<Rightarrow> ConfigReader" where
  "with_t r x = r\<lparr>t := x\<rparr>"

record ParameterDefinition =
  name :: string
  required :: bool
  default_value :: "param_value option"

subsection \<open>Collaborators\<close>

text \<open>
  The code the two modules call but do not contain, as parameters. A collaborator that
  can raise returns \<open>Inl\<close> of its message, which the caller wraps in \<open>Foreign\<close>.
\<close>

record Collaborators =
  merge_methods_get :: "string \<Rightarrow> string + MergeMethod"
  method_parameters :: "MergeMethod \<Rightarrow> ParameterDefinition list"
  method_tensor_parameters :: "MergeMethod \<Rightarrow> ParameterDefinition list"
  reader_parameter ::
    "ConfigReader \<Rightarrow> string \<Rightarrow> string option \<Rightarrow> bool \<Rightarrow> param_value option \<Rightarrow> string + param_value"
  parse :: "string \<Rightarrow> ModelReference"
  referenced_models :: "MergeConfiguration \<Rightarrow> ModelReference list"
  get_architecture_info :: "ModelReference \<Rightarrow> string + ArchitectureInfo"
  loader_cache_get :: "ModelReference \<Rightarrow> string + unit"
  executor_run :: "Task list \<Rightarrow> string \<Rightarrow> string \<Rightarrow> string + bool"
  donor_tokenizer :: "ModelReference \<Rightarrow> bool"

definition foreign :: "string + 'a \<Rightarrow> exception + 'a" where
  "foreign r = (case r of Inl msg \<Rightarrow> Inl (Foreign msg) | Inr v \<Rightarrow> Inr v)"

section \<open>The planner (\<^verbatim>\<open>mergekit/plan.py\<close>)\<close>

record MergePlanner =
  config :: MergeConfiguration
  arch_info :: ArchitectureInfo
  planner_clone_tensors :: bool
  writer_task :: TensorWriterTask
  planner_method :: MergeMethod
  tasks :: "Task list"
  current_layers :: int
  tokenizer_task :: "BuildTokenizer option"

text \<open>
  \<^verbatim>\<open>MergePlanner.__init__(self, config, arch_info, out_path, options)\<close>. The class
  attributes \<^verbatim>\<open>_tasks = []\<close>, \<^verbatim>\<open>_current_layers = 0\<close> and
  \<^verbatim>\<open>_tokenizer_task = None\<close> are the initial values of the fields. The tokenizer task
  is built when \<^verbatim>\<open>config.merge_method\<close> is truthy, that is a non-empty string.
\<close>

definition MergePlanner_init ::
  "Collaborators \<Rightarrow> MergeConfiguration \<Rightarrow> ArchitectureInfo \<Rightarrow> string \<Rightarrow> MergeOptions
     \<Rightarrow> exception + MergePlanner" where
  "MergePlanner_init E cfg arch out_path options =
     (case foreign (merge_methods_get E (merge_method cfg)) of
        Inl e \<Rightarrow> Inl e
      | Inr m \<Rightarrow>
          Inr \<lparr> config = cfg,
                arch_info = arch,
                planner_clone_tensors = clone_tensors options,
                writer_task = TensorWriterTask out_path (out_shard_size options),
                planner_method = m,
                tasks = [],
                current_layers = 0,
                tokenizer_task =
                  (if merge_method cfg \<noteq> []
                   then Some (BuildTokenizer cfg (trust_remote_code options))
                   else None) \<rparr>)"

text \<open>
  The two parameter loops of \<^verbatim>\<open>plan_tensor\<close>. A Python \<^verbatim>\<open>dict\<close> is an association
  list in insertion order; \<^verbatim>\<open>d[k] = v\<close> is \<open>AList.update\<close>.
\<close>

fun resolve_parameters ::
  "Collaborators \<Rightarrow> ConfigReader \<Rightarrow> string option \<Rightarrow> ParameterDefinition list
     \<Rightarrow> (string \<times> param_value) list \<Rightarrow> exception + (string \<times> param_value) list" where
  "resolve_parameters E cfg m [] acc = Inr acc"
| "resolve_parameters E cfg m (p # ps) acc =
     (case foreign (reader_parameter E cfg (name p) m (required p) (default_value p)) of
        Inl e \<Rightarrow> Inl e
      | Inr v \<Rightarrow> resolve_parameters E cfg m ps (AList.update (name p) v acc))"

fun resolve_tensor_parameters ::
  "Collaborators \<Rightarrow> ConfigReader \<Rightarrow> ParameterDefinition list \<Rightarrow> (string \<times> string) list
     \<Rightarrow> (string \<times> (string \<times> param_value) list) list
     \<Rightarrow> exception + (string \<times> (string \<times> param_value) list) list" where
  "resolve_tensor_parameters E cfg_reader ps [] acc = Inr acc"
| "resolve_tensor_parameters E cfg_reader ps ((mdl, name_in) # rest) acc =
     (case resolve_parameters E (for_tensor cfg_reader name_in) (Some mdl) ps [] of
        Inl e \<Rightarrow> Inl e
      | Inr d \<Rightarrow> resolve_tensor_parameters E cfg_reader ps rest (AList.update mdl d acc))"

definition dict_of :: "('k \<times> 'v) list \<Rightarrow> ('k \<times> 'v) list" where
  "dict_of kvs = fold (\<lambda>(k, v). AList.update k v) kvs []"

definition tensor_merge_method :: "MergePlanner \<Rightarrow> string \<Rightarrow> MergeMethod" where
  "tensor_merge_method pl nm =
     (let is_embed = nm \<in> set (embed_weights (arch_info pl)) in
      case tokenizer_task pl of
        Some tk \<Rightarrow> if is_embed then TokenizerPermutationMerge tk else planner_method pl
      | None \<Rightarrow> planner_method pl)"

definition plan_tensor ::
  "Collaborators \<Rightarrow> MergePlanner \<Rightarrow> string \<Rightarrow> string list \<Rightarrow> string list \<Rightarrow> ConfigReader
     \<Rightarrow> exception + MergePlanner" where
  "plan_tensor E pl nm names_in mdls cfg_reader =
     (let tmm = tensor_merge_method pl nm;
          cfg_g = for_tensor (for_in_slices cfg_reader None) nm
      in case resolve_parameters E cfg_g None (method_parameters E tmm) [] of
           Inl e \<Rightarrow> Inl e
         | Inr global_params \<Rightarrow>
             (case resolve_tensor_parameters E cfg_reader (method_tensor_parameters E tmm)
                     (zip mdls names_in) [] of
                Inl e \<Rightarrow> Inl e
              | Inr tensor_params \<Rightarrow>
                  (let gather_tensors = GatherTensors (dict_of (zip mdls names_in)) (dtype (config pl));
                       base = (case base_model (config pl) of
                                 None \<Rightarrow> None
                               | Some b \<Rightarrow> if b \<noteq> [] then Some (parse E b) else None);
                       tensor_task = MergeTask tmm nm gather_tensors global_params tensor_params base;
                       save_task = SaveTensor nm tensor_task (writer_task pl) (planner_clone_tensors pl)
                   in Inr (pl\<lparr>tasks := tasks pl @ [save_task]\<rparr>))))"

text \<open>
  \<^verbatim>\<open>plan_layer\<close>: one \<^verbatim>\<open>plan_tensor\<close> per weight-name template. The output name is
  formatted with \<^verbatim>\<open>self._current_layers\<close>, the input names with the source's first
  layer plus the offset.
\<close>

fun plan_layer_formats ::
  "Collaborators \<Rightarrow> MergePlanner \<Rightarrow> InputSliceDefinition list \<Rightarrow> int \<Rightarrow> number \<Rightarrow> ConfigReader
     \<Rightarrow> name_format list \<Rightarrow> exception + MergePlanner" where
  "plan_layer_formats E pl srcs layer_offset x cfg_reader [] = Inr pl"
| "plan_layer_formats E pl srcs layer_offset x cfg_reader (name_format # rest) =
     (let name_out = format_idx name_format (current_layers pl);
          names_in = map (\<lambda>s. format_idx name_format (fst (layer_range s) + layer_offset)) srcs
      in case plan_tensor E pl name_out names_in (map model srcs) (with_t cfg_reader x) of
           Inl e \<Rightarrow> Inl e
         | Inr pl' \<Rightarrow> plan_layer_formats E pl' srcs layer_offset x cfg_reader rest)"

definition plan_layer ::
  "Collaborators \<Rightarrow> MergePlanner \<Rightarrow> InputSliceDefinition list \<Rightarrow> int \<Rightarrow> number \<Rightarrow> ConfigReader
     \<Rightarrow> exception + MergePlanner" where
  "plan_layer E pl srcs layer_offset x cfg_reader =
     plan_layer_formats E pl srcs layer_offset x cfg_reader (layer_weight_formats (arch_info pl))"

text \<open>\<^verbatim>\<open>range(n)\<close> for an int \<open>n\<close>: empty when \<open>n \<le> 0\<close>.\<close>

definition py_range :: "int \<Rightarrow> int list" where
  "py_range n = map int [0..<nat n]"

text \<open>The body of the loop of \<^verbatim>\<open>plan_slice\<close> over \<^verbatim>\<open>range(num_layers)\<close>.\<close>

fun plan_slice_layers ::
  "Collaborators \<Rightarrow> MergePlanner \<Rightarrow> OutputSliceDefinition \<Rightarrow> ConfigReader \<Rightarrow> int \<Rightarrow> int list
     \<Rightarrow> exception + MergePlanner" where
  "plan_slice_layers E pl definition cfg_reader num_layers [] = Inr pl"
| "plan_slice_layers E pl definition cfg_reader num_layers (idx # rest) =
     (case (if num_layers > 1 then py_truediv idx (num_layers - 1) else Inr (IntNum 1)) of
        Inl e \<Rightarrow> Inl e
      | Inr x \<Rightarrow>
          (case plan_layer E pl (sources definition) idx x
                  (for_in_slices cfg_reader (Some (sources definition))) of
             Inl e \<Rightarrow> Inl e
           | Inr pl' \<Rightarrow> plan_slice_layers E pl' definition cfg_reader num_layers rest))"

definition slice_lengths :: "OutputSliceDefinition \<Rightarrow> int list" where
  "slice_lengths definition = map (\<lambda>s. snd (layer_range s) - fst (layer_range s)) (sources definition)"

definition plan_slice ::
  "Collaborators \<Rightarrow> MergePlanner \<Rightarrow> OutputSliceDefinition \<Rightarrow> exception + MergePlanner" where
  "plan_slice E pl definition =
     (case slice_lengths definition of
        [] \<Rightarrow> Inl IndexError
      | l0 # ls \<Rightarrow>
          if \<not> list_all (\<lambda>s. s = l0) (l0 # ls)
          then Inl (RuntimeError ''All inputs to a slice must contain the same number of layers'')
          else
            (let num_layers = l0;
                 cfg_reader = \<lparr> reader_config = config pl, t = IntNum 0,
                                reader_tensor_name = None, slice_out = Some definition,
                                slices_in = None \<rparr>
             in plan_slice_layers E pl definition cfg_reader num_layers (py_range num_layers)))"

text \<open>
  The loops of \<^verbatim>\<open>plan\<close> over the architecture's pre- and post-weights. They differ in
  the slice whose sources they read (\<^verbatim>\<open>slices[0]\<close>, \<^verbatim>\<open>slices[-1]\<close>) and in \<open>t\<close>
  (0, 1), the two arguments \<open>select\<close> and \<open>x\<close>. The slice is read inside the loop body,
  so indexing fails only when there is a weight to plan.
\<close>

definition first_slice :: "MergeConfiguration \<Rightarrow> exception + OutputSliceDefinition" where
  "first_slice cfg =
     (case slices cfg of
        None \<Rightarrow> Inl (TypeError NoneNotSubscriptable)
      | Some [] \<Rightarrow> Inl IndexError
      | Some (s # ss) \<Rightarrow> Inr s)"

definition last_slice :: "MergeConfiguration \<Rightarrow> exception + OutputSliceDefinition" where
  "last_slice cfg =
     (case slices cfg of
        None \<Rightarrow> Inl (TypeError NoneNotSubscriptable)
      | Some [] \<Rightarrow> Inl IndexError
      | Some (s # ss) \<Rightarrow> Inr (last (s # ss)))"

fun plan_weights ::
  "Collaborators \<Rightarrow> MergePlanner \<Rightarrow> (MergeConfiguration \<Rightarrow> exception + OutputSliceDefinition)
     \<Rightarrow> number \<Rightarrow> string list \<Rightarrow> exception + MergePlanner" where
  "plan_weights E pl select x [] = Inr pl"
| "plan_weights E pl select x (weight_name # rest) =
     (case select (config pl) of
        Inl e \<Rightarrow> Inl e
      | Inr s \<Rightarrow>
          (case plan_tensor E pl weight_name
                  (replicate (length (sources s)) weight_name)
                  (map model (sources s))
                  \<lparr> reader_config = config pl, t = x, reader_tensor_name = Some weight_name,
                    slice_out = None, slices_in = None \<rparr> of
             Inl e \<Rightarrow> Inl e
           | Inr pl' \<Rightarrow> plan_weights E pl' select x rest))"

fun plan_slices ::
  "Collaborators \<Rightarrow> MergePlanner \<Rightarrow> OutputSliceDefinition list \<Rightarrow> exception + MergePlanner" where
  "plan_slices E pl [] = Inr pl"
| "plan_slices E pl (out_slice # rest) =
     (case plan_slice E pl out_slice of
        Inl e \<Rightarrow> Inl e
      | Inr pl' \<Rightarrow> plan_slices E pl' rest)"

text \<open>
  \<^verbatim>\<open>plan\<close> returns the list \<^verbatim>\<open>res\<close>; the planner it leaves behind (whose
  \<^verbatim>\<open>_tasks\<close> now ends with the finalizer) is the second component.
\<close>

definition plan :: "Collaborators \<Rightarrow> MergePlanner \<Rightarrow> exception + (Task list \<times> MergePlanner)" where
  "plan E pl =
     (let pl0 = pl\<lparr>tasks := []\<rparr> in
      case plan_weights E pl0 first_slice (IntNum 0) (pre_weights (arch_info pl0)) of
        Inl e \<Rightarrow> Inl e
      | Inr pl1 \<Rightarrow>
          (case slices (config pl1) of
             None \<Rightarrow> Inl (TypeError NoneNotIterable)
           | Some out_slices \<Rightarrow>
               (case plan_slices E pl1 out_slices of
                  Inl e \<Rightarrow> Inl e
                | Inr pl2 \<Rightarrow>
                    (case plan_weights E pl2 last_slice (IntNum 1) (post_weights (arch_info pl2)) of
                       Inl e \<Rightarrow> Inl e
                     | Inr pl3 \<Rightarrow>
                         (let pl4 = pl3\<lparr>tasks := tasks pl3 @ [FinalizeModel (tasks pl3) (writer_task pl3)]\<rparr>;
                              res = tasks pl4 @
                                (case tokenizer_task pl4 of
                                   Some tk \<Rightarrow> [TokenizerTask tk]
                                 | None \<Rightarrow> [])
                          in Inr (res, pl4))))))"

section \<open>The driver (\<^verbatim>\<open>mergekit/merge.py\<close>)\<close>

subsection \<open>Calling a Python function\<close>

text \<open>
  Binding the arguments of a call to the parameters of a \<^verbatim>\<open>def\<close> whose parameters are
  all positional-or-keyword and without defaults (as those of
  \<^verbatim>\<open>MergePlanner.__init__\<close> are; \<^verbatim>\<open>self\<close> is left out). The interpreter binds the
  positional arguments, then each keyword argument in turn (an unknown name or a
  parameter bound twice is a \<^verbatim>\<open>TypeError\<close>), then checks the number of positional
  arguments, then that no parameter is left unbound.
\<close>

fun bind_keywords ::
  "string list \<Rightarrow> (string \<times> 'a) list \<Rightarrow> (string \<times> 'a) list \<Rightarrow> exception + (string \<times> 'a) list" where
  "bind_keywords ps bound [] = Inr bound"
| "bind_keywords ps bound ((k, v) # kws) =
     (if k \<notin> set ps then Inl (TypeError (UnexpectedKeyword k))
      else if k \<in> set (map fst bound) then Inl (TypeError (MultipleValues k))
      else bind_keywords ps (bound @ [(k, v)]) kws)"

definition bind_arguments ::
  "string list \<Rightarrow> 'a list \<Rightarrow> (string \<times> 'a) list \<Rightarrow> exception + (string \<times> 'a) list" where
  "bind_arguments ps args kwargs =
     (case bind_keywords ps (zip ps args) kwargs of
        Inl e \<Rightarrow> Inl e
      | Inr bound \<Rightarrow>
          if length args > length ps then Inl (TypeError TooManyPositional)
          else
            (let missing = filter (\<lambda>p. p \<notin> set (map fst bound)) ps
             in if missing \<noteq> [] then Inl (TypeError (MissingArguments missing)) else Inr bound))"

datatype py_arg =
    ArgConfig MergeConfiguration
  | ArgArch ArchitectureInfo
  | ArgStr string
  | ArgInt int
  | ArgBool bool
  | ArgOptions MergeOptions

definition MergePlanner_params :: "string list" where
  "MergePlanner_params = [''config'', ''arch_info'', ''out_path'', ''options'']"

text \<open>
  \<^verbatim>\<open>MergePlanner(*args, **kwargs)\<close>: bind, then run \<^verbatim>\<open>__init__\<close>. Python does not
  check the annotations; an argument of the wrong class fails where \<^verbatim>\<open>__init__\<close> first
  reads an attribute of it.
\<close>

definition MergePlanner_call ::
  "Collaborators \<Rightarrow> py_arg list \<Rightarrow> (string \<times> py_arg) list \<Rightarrow> exception + MergePlanner" where
  "MergePlanner_call E args kwargs =
     (case bind_arguments MergePlanner_params args kwargs of
        Inl e \<Rightarrow> Inl e
      | Inr bound \<Rightarrow>
          (case (map_of bound ''config'', map_of bound ''arch_info'',
                 map_of bound ''out_path'', map_of bound ''options'') of
             (Some (ArgConfig c), Some (ArgArch a), Some (ArgStr p), Some (ArgOptions opt)) \<Rightarrow>
               MergePlanner_init E c a p opt
           | _ \<Rightarrow> Inl (AttributeError ''MergePlanner.__init__'')))"

subsection \<open>\<^verbatim>\<open>run_merge\<close>\<close>

text \<open>
  What \<^verbatim>\<open>run_merge\<close> does to the world, in order: the effects are logged, so that a
  failure shows what had happened before it.
\<close>

datatype effect =
    SetSeed int
  | LoaderCacheOptions bool "string option" "string option"
  | PlanBuilt "Task list"
  | WarmedUp ModelReference
  | Executed "Task list" string string
  | ConfigSaved string ModelReference "string option" "int option"
  | TokenizerSaved string

fun architecture_infos ::
  "Collaborators \<Rightarrow> ModelReference list \<Rightarrow> exception + ArchitectureInfo list" where
  "architecture_infos E [] = Inr []"
| "architecture_infos E (m # ms) =
     (case foreign (get_architecture_info E m) of
        Inl e \<Rightarrow> Inl e
      | Inr a \<Rightarrow>
          (case architecture_infos E ms of
             Inl e \<Rightarrow> Inl e
           | Inr as \<Rightarrow> Inr (a # as)))"

text \<open>
  \<^verbatim>\<open>all(a == model_arch_info[0] for a in model_arch_info[1:])\<close>: on the empty list the
  generator yields nothing and \<^verbatim>\<open>model_arch_info[0]\<close> is never read.
\<close>

fun same_architecture :: "ArchitectureInfo list \<Rightarrow> bool" where
  "same_architecture [] = True"
| "same_architecture (a0 # rest) = list_all (\<lambda>a. a = a0) rest"

fun warm_up ::
  "Collaborators \<Rightarrow> ModelReference list \<Rightarrow> effect list \<Rightarrow> (exception + unit) \<times> effect list" where
  "warm_up E [] log = (Inr (), log)"
| "warm_up E (m # ms) log =
     (case foreign (loader_cache_get E m) of
        Inl e \<Rightarrow> (Inl e, log)
      | Inr u \<Rightarrow> warm_up E ms (log @ [WarmedUp m]))"

text \<open>
  The layer count written to the output configuration: the sum over the slices of the
  first source's range; any exception in it is caught and logged, and the field is
  left alone.
\<close>

fun first_source_lengths :: "OutputSliceDefinition list \<Rightarrow> int list option" where
  "first_source_lengths [] = Some []"
| "first_source_lengths (s # ss) =
     (case sources s of
        [] \<Rightarrow> None
      | s0 # r \<Rightarrow>
          (case first_source_lengths ss of
             None \<Rightarrow> None
           | Some ls \<Rightarrow> Some ((snd (layer_range s0) - fst (layer_range s0)) # ls)))"

definition out_num_layers :: "MergeConfiguration \<Rightarrow> int option" where
  "out_num_layers cfg =
     (case slices cfg of
        None \<Rightarrow> None
      | Some ss \<Rightarrow> map_option sum_list (first_source_lengths ss))"

text \<open>
  \<^verbatim>\<open>_model_out_config\<close>: the output configuration is that of the base model, or of the
  first referenced model (\<^verbatim>\<open>referenced_models()[0]\<close>), with the configured dtype.
\<close>

definition model_out_config ::
  "Collaborators \<Rightarrow> MergeConfiguration \<Rightarrow> exception + (ModelReference \<times> string option)" where
  "model_out_config E cfg =
     (case (case base_model cfg of
              Some b \<Rightarrow> if b \<noteq> [] then Some (parse E b) else None
            | None \<Rightarrow> None) of
        Some m \<Rightarrow> Inr (m, dtype cfg)
      | None \<Rightarrow>
          (case referenced_models E cfg of
             [] \<Rightarrow> Inl IndexError
           | m # r \<Rightarrow> Inr (m, dtype cfg)))"

text \<open>
  \<^verbatim>\<open>_get_donor_tokenizer\<close>, whose \<^verbatim>\<open>try\<close> turns every exception into \<^verbatim>\<open>None\<close>:
  whether a tokenizer was obtained.
\<close>

definition get_donor_tokenizer :: "Collaborators \<Rightarrow> MergeConfiguration \<Rightarrow> bool" where
  "get_donor_tokenizer E cfg =
     (case (case base_model cfg of
              Some b \<Rightarrow> if b \<noteq> [] then Some (parse E b) else None
            | None \<Rightarrow> None) of
        Some donor_model \<Rightarrow> donor_tokenizer E donor_model
      | None \<Rightarrow>
          (case referenced_models E cfg of
             [] \<Rightarrow> False
           | donor_model # r \<Rightarrow> donor_tokenizer E donor_model))"

text \<open>
  Lines 77 to 121, what follows planning: warm up the loader cache, run the executor
  (which reports whether a task yielded a tokenizer), save the output configuration
  with the layer count, and save the built or the donor tokenizer. Reading and writing
  the files is the collaborators' work; the vocabulary size set on the output
  configuration is not recorded.
\<close>

definition run_targets ::
  "Collaborators \<Rightarrow> MergeConfiguration \<Rightarrow> string \<Rightarrow> MergeOptions \<Rightarrow> Task list \<Rightarrow> effect list
     \<Rightarrow> (exception + unit) \<times> effect list" where
  "run_targets E merge_config out_path options targets log =
     (case warm_up E (referenced_models E merge_config) log of
        (Inl e, log1) \<Rightarrow> (Inl e, log1)
      | (Inr u, log1) \<Rightarrow>
          (let math_device = (if cuda options then ''cuda'' else ''cpu'');
               storage_device = (if low_cpu_memory options then ''cuda'' else ''cpu'')
           in case foreign (executor_run E targets math_device storage_device) of
                Inl e \<Rightarrow> (Inl e, log1)
              | Inr tokenizer \<Rightarrow>
                  (let log2 = log1 @ [Executed targets math_device storage_device]
                   in case model_out_config E merge_config of
                        Inl e \<Rightarrow> (Inl e, log2)
                      | Inr (m, dt) \<Rightarrow>
                          (let log3 = log2 @ [ConfigSaved out_path m dt (out_num_layers merge_config)];
                               tokenizer' = (if \<not> tokenizer \<and> copy_tokenizer options
                                             then get_donor_tokenizer E merge_config else tokenizer)
                           in (Inr (), if tokenizer' then log3 @ [TokenizerSaved out_path] else log3)))))"

text \<open>
  \<^verbatim>\<open>transformers.trainer_utils.set_seed(seed)\<close> seeds Python's, NumPy's and the tensor
  library's generators. NumPy accepts a seed from 0 to \<open>2\<^sup>3\<^sup>2 - 1\<close> only and raises
  \<^verbatim>\<open>ValueError\<close> for any other int, and \<^verbatim>\<open>random_seed: Optional[int]\<close> admits every int.
\<close>

definition set_seed :: "int \<Rightarrow> exception + unit" where
  "set_seed seed =
     (if 0 \<le> seed \<and> seed \<le> 4294967295 then Inr ()
      else Inl (ValueError ''Seed must be between 0 and 2**32 - 1''))"

text \<open>Lines 47 and 48: the seed is set, when one is given, before anything is checked.\<close>

definition seeding :: "MergeOptions \<Rightarrow> exception + effect list" where
  "seeding options =
     (case random_seed options of
        None \<Rightarrow> Inr []
      | Some seed \<Rightarrow>
          (case set_seed seed of
             Inl e \<Rightarrow> Inl e
           | Inr u \<Rightarrow> Inr [SetSeed seed]))"

definition run_merge ::
  "Collaborators \<Rightarrow> MergeConfiguration \<Rightarrow> string \<Rightarrow> MergeOptions
     \<Rightarrow> (exception + unit) \<times> effect list" where
  "run_merge E merge_config out_path options =
     (case seeding options of
        Inl e \<Rightarrow> (Inl e, [])
      | Inr log0 \<Rightarrow>
          if \<not> truthy (models merge_config) \<and> \<not> truthy (slices merge_config)
          then (Inl (RuntimeError ''No output requested''), log0)
          else
            (case architecture_infos E (referenced_models E merge_config) of
               Inl e \<Rightarrow> (Inl e, log0)
             | Inr model_arch_info \<Rightarrow>
                 if \<not> allow_crimes options \<and> \<not> same_architecture model_arch_info
                 then (Inl (RuntimeError
                         ''Must specify --allow-crimes to attempt to mix different architectures''), log0)
                 else
                   (case model_arch_info of
                      [] \<Rightarrow> (Inl IndexError, log0)
                    | arch # others \<Rightarrow>
                        (let log1 = log0 @ [LoaderCacheOptions (lazy_unpickle options)
                                              (lora_merge_cache options) (transformers_cache options)]
                         in case MergePlanner_call E
                                   [ArgConfig merge_config, ArgArch arch]
                                   [(''out_path'', ArgStr out_path),
                                    (''max_shard_size'', ArgInt (out_shard_size options)),
                                    (''clone_tensors'', ArgBool (clone_tensors options))] of
                              Inl e \<Rightarrow> (Inl e, log1)
                            | Inr planner \<Rightarrow>
                                (case plan E planner of
                                   Inl e \<Rightarrow> (Inl e, log1)
                                 | Inr (targets, planner') \<Rightarrow>
                                     run_targets E merge_config out_path options targets
                                       (log1 @ [PlanBuilt targets]))))))"

section \<open>Derived notions\<close>

text \<open>
  \<^verbatim>\<open>MergePlanner(config, arch_info, out_path, options).plan()\<close>: construction followed by
  planning, the call \<^verbatim>\<open>__init__\<close>'s signature asks for.
\<close>

definition plan_config ::
  "Collaborators \<Rightarrow> MergeConfiguration \<Rightarrow> ArchitectureInfo \<Rightarrow> string \<Rightarrow> MergeOptions
     \<Rightarrow> exception + (Task list \<times> MergePlanner)" where
  "plan_config E cfg arch out_path options =
     (case MergePlanner_init E cfg arch out_path options of
        Inl e \<Rightarrow> Inl e
      | Inr planner \<Rightarrow> plan E planner)"

text \<open>
  The interpolation fraction in the words of the specification: \<open>t = index/(layerCount - 1)\<close>,
  or 1 if the slice has exactly one layer.
\<close>

definition interpolation_fraction :: "int \<Rightarrow> int \<Rightarrow> number" where
  "interpolation_fraction layerCount index =
     (if layerCount = 1 then IntNum 1 else TrueDiv index (layerCount - 1))"

text \<open>
  \<^verbatim>\<open>plan_layer\<close> called once per given pair of layer offset and fraction, in order,
  stopping at the first exception.
\<close>

fun plan_layers_with ::
  "Collaborators \<Rightarrow> MergePlanner \<Rightarrow> InputSliceDefinition list \<Rightarrow> ConfigReader
     \<Rightarrow> (int \<times> number) list \<Rightarrow> exception + MergePlanner" where
  "plan_layers_with E pl srcs cfg_reader [] = Inr pl"
| "plan_layers_with E pl srcs cfg_reader ((idx, x) # rest) =
     (case plan_layer E pl srcs idx x cfg_reader of
        Inl e \<Rightarrow> Inl e
      | Inr pl' \<Rightarrow> plan_layers_with E pl' srcs cfg_reader rest)"

text \<open>The effects that precede planning.\<close>

fun before_planning :: "effect \<Rightarrow> bool" where
  "before_planning (SetSeed seed) = True"
| "before_planning (LoaderCacheOptions lazy lora hf) = True"
| "before_planning _ = False"

section \<open>Example inputs\<close>

text \<open>
  Concrete collaborators, an architecture shaped like GPT-2's, the default options and
  the configurations of the test suite, on which the theorems below are evaluated.
\<close>

definition example_architecture :: ArchitectureInfo where
  "example_architecture =
     \<lparr> pre_weights = [''wte.weight''],
       post_weights = [''ln_f.weight''],
       layer_weight_formats = [[Lit ''h.'', IdxField, Lit ''.attn.weight'']],
       embed_weights = [''wte.weight''],
       num_layers_config_key = ''n_layer'' \<rparr>"

definition other_architecture :: ArchitectureInfo where
  "other_architecture = example_architecture\<lparr>num_layers_config_key := ''num_hidden_layers''\<rparr>"

definition config_models :: "MergeConfiguration \<Rightarrow> string list" where
  "config_models cfg =
     (case base_model cfg of Some b \<Rightarrow> [b] | None \<Rightarrow> [])
     @ (case models cfg of Some ms \<Rightarrow> map model_in ms | None \<Rightarrow> [])
     @ (case slices cfg of Some ss \<Rightarrow> concat (map (\<lambda>s. map model (sources s)) ss) | None \<Rightarrow> [])"

definition example_collaborators :: Collaborators where
  "example_collaborators =
     \<lparr> merge_methods_get =
         (\<lambda>n. if n \<in> set [''passthrough'', ''linear'', ''slerp'', ''task_arithmetic'']
               then Inr (RegisteredMethod n) else Inl ''Unimplemented merge method''),
       method_parameters =
         (\<lambda>m. if m = RegisteredMethod ''slerp''
               then [\<lparr> name = ''t'', required = True, default_value = None \<rparr>] else []),
       method_tensor_parameters =
         (\<lambda>m. if m = RegisteredMethod ''linear''
               then [\<lparr> name = ''weight'', required = False, default_value = Some (NumValue (IntNum 1)) \<rparr>]
               else []),
       reader_parameter =
         (\<lambda>r n m req d.
            case map_of (case parameters (reader_config r) of Some ps \<Rightarrow> ps | None \<Rightarrow> []) n of
              Some v \<Rightarrow> Inr v
            | None \<Rightarrow>
                if req then Inl ''Missing required parameter''
                else Inr (case d of Some v \<Rightarrow> v | None \<Rightarrow> NoneValue)),
       parse = (\<lambda>s. ModelReference s None),
       referenced_models = (\<lambda>cfg. remdups (map (\<lambda>s. ModelReference s None) (config_models cfg))),
       get_architecture_info =
         (\<lambda>m. if m = ModelReference ''bert'' None then Inr other_architecture
               else Inr example_architecture),
       loader_cache_get = (\<lambda>m. Inr ()),
       executor_run = (\<lambda>ts math_device storage_device. Inr (list_ex is_tokenizer ts)),
       donor_tokenizer = (\<lambda>m. True) \<rparr>"

text \<open>
  Collaborators under which the fraction is visible in a plan: every merge method takes
  one parameter \<^verbatim>\<open>t\<close>, and the reader resolves it to its own \<open>t\<close> (as a gradient
  parameter follows the position of the layer).
\<close>

definition fraction_collaborators :: Collaborators where
  "fraction_collaborators =
     example_collaborators
       \<lparr> method_parameters := (\<lambda>m. [\<lparr> name = ''t'', required = True, default_value = None \<rparr>]),
         reader_parameter := (\<lambda>r n m req d. Inr (NumValue (t r))) \<rparr>"

definition default_options :: MergeOptions where
  "default_options =
     \<lparr> allow_crimes = False, transformers_cache = None, lora_merge_cache = None,
       cuda = False, low_cpu_memory = False, out_shard_size = 5000000000,
       copy_tokenizer = True, clone_tensors = False, trust_remote_code = False,
       random_seed = None, lazy_unpickle = False \<rparr>"

definition seeded_options :: MergeOptions where
  "seeded_options = default_options\<lparr>random_seed := Some 42\<rparr>"

definition overflowing_seed_options :: MergeOptions where
  "overflowing_seed_options = default_options\<lparr>random_seed := Some 4294967296\<rparr>"

definition gpt2_copy :: MergeConfiguration where
  "gpt2_copy =
     \<lparr> merge_method = ''passthrough'', base_model = None, dtype = Some ''bfloat16'',
       models = Some [\<lparr> model_in = ''gpt2'' \<rparr>], slices = None, parameters = None \<rparr>"

definition no_output_config :: MergeConfiguration where
  "no_output_config = gpt2_copy\<lparr>models := None\<rparr>"

definition mixed_config :: MergeConfiguration where
  "mixed_config = gpt2_copy\<lparr>models := Some [\<lparr> model_in = ''gpt2'' \<rparr>, \<lparr> model_in = ''bert'' \<rparr>]\<rparr>"

definition gpt2_stack :: MergeConfiguration where
  "gpt2_stack =
     \<lparr> merge_method = ''passthrough'', base_model = None, dtype = Some ''bfloat16'',
       models = None,
       slices = Some [\<lparr> sources = replicate 2 \<lparr> model = ''gpt2'', layer_range = (0, 12) \<rparr> \<rparr>],
       parameters = None \<rparr>"

definition stack_planner :: MergePlanner where
  "stack_planner =
     \<lparr> config = gpt2_stack, arch_info = example_architecture, planner_clone_tensors = False,
       writer_task = TensorWriterTask ''out'' 5000000000,
       planner_method = RegisteredMethod ''passthrough'', tasks = [], current_layers = 0,
       tokenizer_task = Some (BuildTokenizer gpt2_stack False) \<rparr>"

definition uneven_slice :: OutputSliceDefinition where
  "uneven_slice =
     \<lparr> sources = [\<lparr> model = ''gpt2'', layer_range = (0, 12) \<rparr>,
                  \<lparr> model = ''gpt2'', layer_range = (0, 6) \<rparr>] \<rparr>"

definition uneven_planner :: MergePlanner where
  "uneven_planner = stack_planner\<lparr>config := gpt2_stack\<lparr>slices := Some [uneven_slice]\<rparr>\<rparr>"

definition middle_slice :: OutputSliceDefinition where
  "middle_slice = \<lparr> sources = [\<lparr> model = ''gpt2'', layer_range = (4, 7) \<rparr>] \<rparr>"

definition single_slice :: OutputSliceDefinition where
  "single_slice = \<lparr> sources = [\<lparr> model = ''gpt2'', layer_range = (4, 5) \<rparr>] \<rparr>"

section \<open>Properties of the planner\<close>

subsection \<open>What planning appends, and how it fails\<close>

lemma resolve_parameters_error:
  "resolve_parameters E cfg m ps acc = Inl e \<Longrightarrow> \<exists>msg. e = Foreign msg"
  by (induction ps arbitrary: acc) (auto simp: foreign_def split: sum.splits)

lemma resolve_tensor_parameters_error:
  "resolve_tensor_parameters E rd ps pairs acc = Inl e \<Longrightarrow> \<exists>msg. e = Foreign msg"
  by (induction pairs arbitrary: acc) (auto split: sum.splits dest: resolve_parameters_error)

lemma plan_tensor_error:
  "plan_tensor E pl nm names_in mdls rd = Inl e \<Longrightarrow> \<exists>msg. e = Foreign msg"
  by (auto simp: plan_tensor_def Let_def split: sum.splits
           dest: resolve_parameters_error resolve_tensor_parameters_error)

lemma plan_tensor_result:
  assumes "plan_tensor E pl nm names_in mdls rd = Inr pl'"
  shows "\<exists>g gp tp b. pl' = pl\<lparr>tasks := tasks pl @
            [SaveTensor nm (MergeTask (tensor_merge_method pl nm) nm g gp tp b)
               (writer_task pl) (planner_clone_tensors pl)]\<rparr>"
  using assms by (auto simp: plan_tensor_def Let_def split: sum.splits)

lemma plan_tensor_saves:
  assumes "plan_tensor E pl nm names_in mdls rd = Inr pl'"
  shows "\<exists>s. is_save s \<and> pl' = pl\<lparr>tasks := tasks pl @ [s]\<rparr>"
proof -
  from plan_tensor_result [OF assms] obtain g gp tp b where
    "pl' = pl\<lparr>tasks := tasks pl @
       [SaveTensor nm (MergeTask (tensor_merge_method pl nm) nm g gp tp b)
          (writer_task pl) (planner_clone_tensors pl)]\<rparr>"
    by blast
  moreover have "is_save (SaveTensor nm (MergeTask (tensor_merge_method pl nm) nm g gp tp b)
          (writer_task pl) (planner_clone_tensors pl))"
    by simp
  ultimately show ?thesis by blast
qed

lemma plan_layer_formats_error:
  "plan_layer_formats E pl srcs off x rd fmts = Inl e \<Longrightarrow> \<exists>msg. e = Foreign msg"
  by (induction fmts arbitrary: pl) (auto simp: Let_def split: sum.splits dest: plan_tensor_error)

lemma plan_layer_formats_saves:
  "plan_layer_formats E pl srcs off x rd fmts = Inr pl'
     \<Longrightarrow> \<exists>new. list_all is_save new \<and> pl' = pl\<lparr>tasks := tasks pl @ new\<rparr>"
proof (induction fmts arbitrary: pl)
  case Nil
  then have "list_all is_save [] \<and> pl' = pl\<lparr>tasks := tasks pl @ []\<rparr>" by simp
  then show ?case by blast
next
  case (Cons f fmts)
  from Cons.prems obtain pl1 where
    step: "plan_tensor E pl (format_idx f (current_layers pl))
             (map (\<lambda>s. format_idx f (fst (layer_range s) + off)) srcs) (map model srcs) (with_t rd x)
           = Inr pl1"
    and rest: "plan_layer_formats E pl1 srcs off x rd fmts = Inr pl'"
    by (auto simp: Let_def split: sum.splits)
  from plan_tensor_saves [OF step] obtain s where
    s: "is_save s" "pl1 = pl\<lparr>tasks := tasks pl @ [s]\<rparr>" by blast
  from Cons.IH [OF rest] obtain new where
    new: "list_all is_save new" "pl' = pl1\<lparr>tasks := tasks pl1 @ new\<rparr>" by blast
  have "list_all is_save (s # new) \<and> pl' = pl\<lparr>tasks := tasks pl @ (s # new)\<rparr>"
    using s new by simp
  then show ?case by blast
qed

lemma plan_layer_error:
  "plan_layer E pl srcs off x rd = Inl e \<Longrightarrow> \<exists>msg. e = Foreign msg"
  unfolding plan_layer_def by (rule plan_layer_formats_error)

lemma plan_layer_saves:
  "plan_layer E pl srcs off x rd = Inr pl'
     \<Longrightarrow> \<exists>new. list_all is_save new \<and> pl' = pl\<lparr>tasks := tasks pl @ new\<rparr>"
  unfolding plan_layer_def by (rule plan_layer_formats_saves)

lemma plan_slice_layers_error:
  "plan_slice_layers E pl d rd n idxs = Inl e \<Longrightarrow> \<exists>msg. e = Foreign msg"
  by (induction idxs arbitrary: pl)
     (auto simp: py_truediv_def split: sum.splits if_splits dest: plan_layer_error)

lemma plan_slice_layers_saves:
  "plan_slice_layers E pl d rd n idxs = Inr pl'
     \<Longrightarrow> \<exists>new. list_all is_save new \<and> pl' = pl\<lparr>tasks := tasks pl @ new\<rparr>"
proof (induction idxs arbitrary: pl)
  case Nil
  then have "list_all is_save [] \<and> pl' = pl\<lparr>tasks := tasks pl @ []\<rparr>" by simp
  then show ?case by blast
next
  case (Cons idx idxs)
  from Cons.prems obtain x pl1 where
    step: "plan_layer E pl (sources d) idx x (for_in_slices rd (Some (sources d))) = Inr pl1"
    and rest: "plan_slice_layers E pl1 d rd n idxs = Inr pl'"
    by (auto split: sum.splits)
  from plan_layer_saves [OF step] obtain a where
    a: "list_all is_save a" "pl1 = pl\<lparr>tasks := tasks pl @ a\<rparr>" by blast
  from Cons.IH [OF rest] obtain b where
    b: "list_all is_save b" "pl' = pl1\<lparr>tasks := tasks pl1 @ b\<rparr>" by blast
  have "list_all is_save (a @ b) \<and> pl' = pl\<lparr>tasks := tasks pl @ (a @ b)\<rparr>"
    using a b by simp
  then show ?case by blast
qed

lemma plan_slice_error:
  assumes "plan_slice E pl d = Inl e"
  shows "e = IndexError
         \<or> e = RuntimeError ''All inputs to a slice must contain the same number of layers''
         \<or> (\<exists>msg. e = Foreign msg)"
  using assms
  by (auto simp: plan_slice_def Let_def split: list.splits if_splits dest: plan_slice_layers_error)

lemma plan_slice_saves:
  "plan_slice E pl d = Inr pl'
     \<Longrightarrow> \<exists>new. list_all is_save new \<and> pl' = pl\<lparr>tasks := tasks pl @ new\<rparr>"
  by (auto simp: plan_slice_def Let_def split: list.splits if_splits dest: plan_slice_layers_saves)

lemma plan_slices_saves:
  "plan_slices E pl ds = Inr pl'
     \<Longrightarrow> \<exists>new. list_all is_save new \<and> pl' = pl\<lparr>tasks := tasks pl @ new\<rparr>"
proof (induction ds arbitrary: pl)
  case Nil
  then have "list_all is_save [] \<and> pl' = pl\<lparr>tasks := tasks pl @ []\<rparr>" by simp
  then show ?case by blast
next
  case (Cons d ds)
  from Cons.prems obtain pl1 where
    step: "plan_slice E pl d = Inr pl1" and rest: "plan_slices E pl1 ds = Inr pl'"
    by (auto split: sum.splits)
  from plan_slice_saves [OF step] obtain a where
    a: "list_all is_save a" "pl1 = pl\<lparr>tasks := tasks pl @ a\<rparr>" by blast
  from Cons.IH [OF rest] obtain b where
    b: "list_all is_save b" "pl' = pl1\<lparr>tasks := tasks pl1 @ b\<rparr>" by blast
  have "list_all is_save (a @ b) \<and> pl' = pl\<lparr>tasks := tasks pl @ (a @ b)\<rparr>"
    using a b by simp
  then show ?case by blast
qed

lemma plan_weights_saves:
  "plan_weights E pl select x ws = Inr pl'
     \<Longrightarrow> \<exists>new. list_all is_save new \<and> pl' = pl\<lparr>tasks := tasks pl @ new\<rparr>"
proof (induction ws arbitrary: pl)
  case Nil
  then have "list_all is_save [] \<and> pl' = pl\<lparr>tasks := tasks pl @ []\<rparr>" by simp
  then show ?case by blast
next
  case (Cons w ws)
  from Cons.prems obtain sl :: OutputSliceDefinition and pl1 where
    step: "plan_tensor E pl w (replicate (length (sources sl)) w) (map model (sources sl))
             \<lparr> reader_config = config pl, t = x, reader_tensor_name = Some w,
               slice_out = None, slices_in = None \<rparr> = Inr pl1"
    and rest: "plan_weights E pl1 select x ws = Inr pl'"
    by (auto split: sum.splits)
  from plan_tensor_saves [OF step] obtain s where
    s: "is_save s" "pl1 = pl\<lparr>tasks := tasks pl @ [s]\<rparr>" by blast
  from Cons.IH [OF rest] obtain b where
    b: "list_all is_save b" "pl' = pl1\<lparr>tasks := tasks pl1 @ b\<rparr>" by blast
  have "list_all is_save (s # b) \<and> pl' = pl\<lparr>tasks := tasks pl @ (s # b)\<rparr>"
    using s b by simp
  then show ?case by blast
qed

lemma plan_weights_config:
  "plan_weights E pl select x ws = Inr pl' \<Longrightarrow> config pl' = config pl"
  using plan_weights_saves [of E pl select x ws pl'] by auto

lemma plan_result:
  assumes "plan E pl = Inr (res, pl')"
  shows "\<exists>saves. list_all is_save saves
           \<and> pl' = pl\<lparr>tasks := saves @ [FinalizeModel saves (writer_task pl)]\<rparr>
           \<and> res = saves @ [FinalizeModel saves (writer_task pl)]
                   @ (case tokenizer_task pl of Some tk \<Rightarrow> [TokenizerTask tk] | None \<Rightarrow> [])"
proof -
  let ?pl0 = "pl\<lparr>tasks := []\<rparr>"
  from assms obtain pl1 out_slices pl2 pl3 where
    pre: "plan_weights E ?pl0 first_slice (IntNum 0) (pre_weights (arch_info ?pl0)) = Inr pl1"
    and sl: "slices (config pl1) = Some out_slices"
    and mid: "plan_slices E pl1 out_slices = Inr pl2"
    and post: "plan_weights E pl2 last_slice (IntNum 1) (post_weights (arch_info pl2)) = Inr pl3"
    and res: "res = tasks pl3 @ [FinalizeModel (tasks pl3) (writer_task pl3)]
                @ (case tokenizer_task pl3 of Some tk \<Rightarrow> [TokenizerTask tk] | None \<Rightarrow> [])"
    and pl': "pl' = pl3\<lparr>tasks := tasks pl3 @ [FinalizeModel (tasks pl3) (writer_task pl3)]\<rparr>"
    by (auto simp: plan_def Let_def split: sum.splits option.splits)
  from plan_weights_saves [OF pre] obtain a where
    a: "list_all is_save a" "pl1 = ?pl0\<lparr>tasks := tasks ?pl0 @ a\<rparr>" by blast
  from plan_slices_saves [OF mid] obtain b where
    b: "list_all is_save b" "pl2 = pl1\<lparr>tasks := tasks pl1 @ b\<rparr>" by blast
  from plan_weights_saves [OF post] obtain c where
    c: "list_all is_save c" "pl3 = pl2\<lparr>tasks := tasks pl2 @ c\<rparr>" by blast
  have pl3: "pl3 = pl\<lparr>tasks := a @ b @ c\<rparr>"
    using a b c by simp
  have "list_all is_save (a @ b @ c)"
    using a b c by simp
  moreover have "pl' = pl\<lparr>tasks := (a @ b @ c) @ [FinalizeModel (a @ b @ c) (writer_task pl)]\<rparr>"
    using pl' pl3 by simp
  moreover have "res = (a @ b @ c) @ [FinalizeModel (a @ b @ c) (writer_task pl)]
                   @ (case tokenizer_task pl of Some tk \<Rightarrow> [TokenizerTask tk] | None \<Rightarrow> [])"
    using res pl3 by simp
  ultimately show ?thesis by blast
qed

subsection \<open>Evaluating the examples\<close>

lemma init_stack:
  "MergePlanner_init example_collaborators gpt2_stack example_architecture ''out'' default_options
     = Inr stack_planner"
  by (simp add: MergePlanner_init_def example_collaborators_def foreign_def gpt2_stack_def
        default_options_def stack_planner_def)

lemma plan_tensor_embed_example:
  "plan_tensor example_collaborators stack_planner ''wte.weight''
      [''wte.weight'', ''wte.weight''] [''gpt2'', ''gpt2'']
      \<lparr> reader_config = gpt2_stack, t = IntNum 0, reader_tensor_name = Some ''wte.weight'',
        slice_out = None, slices_in = None \<rparr>
   = Inr (stack_planner\<lparr>tasks :=
       [SaveTensor ''wte.weight''
          (MergeTask (TokenizerPermutationMerge (BuildTokenizer gpt2_stack False)) ''wte.weight''
             (GatherTensors [(''gpt2'', ''wte.weight'')] (Some ''bfloat16'')) [] [(''gpt2'', [])] None)
          (TensorWriterTask ''out'' 5000000000) False]\<rparr>)"
  by code_simp

lemma plan_tensor_norm_example:
  "plan_tensor example_collaborators stack_planner ''ln_f.weight''
      [''ln_f.weight'', ''ln_f.weight''] [''gpt2'', ''gpt2'']
      \<lparr> reader_config = gpt2_stack, t = IntNum 1, reader_tensor_name = Some ''ln_f.weight'',
        slice_out = None, slices_in = None \<rparr>
   = Inr (stack_planner\<lparr>tasks :=
       [SaveTensor ''ln_f.weight''
          (MergeTask (RegisteredMethod ''passthrough'') ''ln_f.weight''
             (GatherTensors [(''gpt2'', ''ln_f.weight'')] (Some ''bfloat16'')) [] [(''gpt2'', [])] None)
          (TensorWriterTask ''out'' 5000000000) False]\<rparr>)"
  by code_simp


lemma stack_config_plan_succeeds:
  "(case plan_config example_collaborators gpt2_stack example_architecture ''out'' default_options of
      Inl e \<Rightarrow> False | Inr r \<Rightarrow> True)"
  by code_simp

subsection \<open>The merge method of a weight\<close>

text \<open>
  Claim C8. Every weight planned by \<^verbatim>\<open>plan_tensor\<close> adds one save task for that name. Its
  merge task is made by \<^verbatim>\<open>TokenizerPermutationMerge\<close> over the planner's tokenizer task
  when such a task exists and the name is one of the architecture's embedding weights,
  and by the configured merge method otherwise.
\<close>

theorem plan_tensor_merge_method:
  assumes "plan_tensor E pl nm names_in mdls rd = Inr pl'"
  shows "\<exists>s. tasks pl' = tasks pl @ [s] \<and> tensor_name s = Some nm
           \<and> (\<forall>tk. tokenizer_task pl = Some tk \<and> nm \<in> set (embed_weights (arch_info pl))
                  \<longrightarrow> save_method s = Some (TokenizerPermutationMerge tk))
           \<and> (tokenizer_task pl = None \<or> nm \<notin> set (embed_weights (arch_info pl))
                  \<longrightarrow> save_method s = Some (planner_method pl))"
proof -
  from plan_tensor_result [OF assms] obtain g gp tp b where
    pl': "pl' = pl\<lparr>tasks := tasks pl @
       [SaveTensor nm (MergeTask (tensor_merge_method pl nm) nm g gp tp b)
          (writer_task pl) (planner_clone_tensors pl)]\<rparr>"
    by blast
  let ?s = "SaveTensor nm (MergeTask (tensor_merge_method pl nm) nm g gp tp b)
              (writer_task pl) (planner_clone_tensors pl)"
  have "tasks pl' = tasks pl @ [?s]"
    using pl' by simp
  moreover have "tensor_name ?s = Some nm"
    by simp
  moreover have "\<forall>tk. tokenizer_task pl = Some tk \<and> nm \<in> set (embed_weights (arch_info pl))
                  \<longrightarrow> save_method ?s = Some (TokenizerPermutationMerge tk)"
    by (simp add: tensor_merge_method_def)
  moreover have "tokenizer_task pl = None \<or> nm \<notin> set (embed_weights (arch_info pl))
                  \<longrightarrow> save_method ?s = Some (planner_method pl)"
    by (auto simp: tensor_merge_method_def split: option.splits)
  ultimately show ?thesis by blast
qed

theorem plan_tensor_merge_method_witness:
  "(\<exists>pl' s. plan_tensor example_collaborators stack_planner ''wte.weight''
              [''wte.weight'', ''wte.weight''] [''gpt2'', ''gpt2'']
              \<lparr> reader_config = gpt2_stack, t = IntNum 0,
                reader_tensor_name = Some ''wte.weight'', slice_out = None, slices_in = None \<rparr>
            = Inr pl'
          \<and> tasks pl' = tasks stack_planner @ [s]
          \<and> save_method s = Some (TokenizerPermutationMerge (BuildTokenizer gpt2_stack False)))
   \<and> (\<exists>pl' s. plan_tensor example_collaborators stack_planner ''ln_f.weight''
              [''ln_f.weight'', ''ln_f.weight''] [''gpt2'', ''gpt2'']
              \<lparr> reader_config = gpt2_stack, t = IntNum 1,
                reader_tensor_name = Some ''ln_f.weight'', slice_out = None, slices_in = None \<rparr>
            = Inr pl'
          \<and> tasks pl' = tasks stack_planner @ [s]
          \<and> save_method s = Some (RegisteredMethod ''passthrough''))"
proof -
  have tk: "tokenizer_task stack_planner = Some (BuildTokenizer gpt2_stack False)"
    and embed: "''wte.weight'' \<in> set (embed_weights (arch_info stack_planner))"
    and other: "''ln_f.weight'' \<notin> set (embed_weights (arch_info stack_planner))"
    and configured: "planner_method stack_planner = RegisteredMethod ''passthrough''"
    by (simp_all add: stack_planner_def example_architecture_def)
  from plan_tensor_merge_method [OF plan_tensor_embed_example] obtain s where
    "tasks (stack_planner\<lparr>tasks :=
       [SaveTensor ''wte.weight''
          (MergeTask (TokenizerPermutationMerge (BuildTokenizer gpt2_stack False)) ''wte.weight''
             (GatherTensors [(''gpt2'', ''wte.weight'')] (Some ''bfloat16'')) [] [(''gpt2'', [])] None)
          (TensorWriterTask ''out'' 5000000000) False]\<rparr>) = tasks stack_planner @ [s]"
    "\<forall>tk. tokenizer_task stack_planner = Some tk
          \<and> ''wte.weight'' \<in> set (embed_weights (arch_info stack_planner))
        \<longrightarrow> save_method s = Some (TokenizerPermutationMerge tk)"
    by blast
  with tk embed have first: "\<exists>pl' s. plan_tensor example_collaborators stack_planner ''wte.weight''
              [''wte.weight'', ''wte.weight''] [''gpt2'', ''gpt2'']
              \<lparr> reader_config = gpt2_stack, t = IntNum 0,
                reader_tensor_name = Some ''wte.weight'', slice_out = None, slices_in = None \<rparr>
            = Inr pl'
          \<and> tasks pl' = tasks stack_planner @ [s]
          \<and> save_method s = Some (TokenizerPermutationMerge (BuildTokenizer gpt2_stack False))"
    using plan_tensor_embed_example by blast
  from plan_tensor_merge_method [OF plan_tensor_norm_example] obtain s' where
    "tasks (stack_planner\<lparr>tasks :=
       [SaveTensor ''ln_f.weight''
          (MergeTask (RegisteredMethod ''passthrough'') ''ln_f.weight''
             (GatherTensors [(''gpt2'', ''ln_f.weight'')] (Some ''bfloat16'')) [] [(''gpt2'', [])] None)
          (TensorWriterTask ''out'' 5000000000) False]\<rparr>) = tasks stack_planner @ [s']"
    "tokenizer_task stack_planner = None
          \<or> ''ln_f.weight'' \<notin> set (embed_weights (arch_info stack_planner))
        \<longrightarrow> save_method s' = Some (planner_method stack_planner)"
    by blast
  with other configured have "\<exists>pl' s. plan_tensor example_collaborators stack_planner ''ln_f.weight''
              [''ln_f.weight'', ''ln_f.weight''] [''gpt2'', ''gpt2'']
              \<lparr> reader_config = gpt2_stack, t = IntNum 1,
                reader_tensor_name = Some ''ln_f.weight'', slice_out = None, slices_in = None \<rparr>
            = Inr pl'
          \<and> tasks pl' = tasks stack_planner @ [s]
          \<and> save_method s = Some (RegisteredMethod ''passthrough'')"
    using plan_tensor_norm_example by metis
  with first show ?thesis by blast
qed

subsection \<open>The finalizer\<close>



subsection \<open>Slices whose sources differ in length\<close>

lemma plan_slice_raises_iff:
  "plan_slice E pl d =
      Inl (RuntimeError ''All inputs to a slice must contain the same number of layers'')
   \<longleftrightarrow> (\<exists>s0 rest. sources d = s0 # rest
          \<and> (\<exists>s\<in>set rest. snd (layer_range s) - fst (layer_range s)
                              \<noteq> snd (layer_range s0) - fst (layer_range s0)))"
proof (cases "sources d")
  case Nil
  then show ?thesis by (simp add: plan_slice_def slice_lengths_def)
next
  case (Cons s0 rest)
  let ?n = "snd (layer_range s0) - fst (layer_range s0)"
  let ?equal = "list_all (\<lambda>l. l = ?n) (map (\<lambda>s. snd (layer_range s) - fst (layer_range s)) rest)"
  have eq: "?equal \<longleftrightarrow> \<not> (\<exists>s\<in>set rest. snd (layer_range s) - fst (layer_range s) \<noteq> ?n)"
    by (simp add: list_all_iff)
  show ?thesis
  proof (cases ?equal)
    case True
    have "plan_slice E pl d \<noteq>
            Inl (RuntimeError ''All inputs to a slice must contain the same number of layers'')"
    proof
      assume "plan_slice E pl d =
                Inl (RuntimeError ''All inputs to a slice must contain the same number of layers'')"
      with Cons True obtain rd where
        "plan_slice_layers E pl d rd ?n (py_range ?n) =
           Inl (RuntimeError ''All inputs to a slice must contain the same number of layers'')"
        by (simp add: plan_slice_def slice_lengths_def Let_def)
      from plan_slice_layers_error [OF this] show False by simp
    qed
    with Cons True eq show ?thesis by simp
  next
    case False
    with Cons have "plan_slice E pl d =
        Inl (RuntimeError ''All inputs to a slice must contain the same number of layers'')"
      by (simp add: plan_slice_def slice_lengths_def)
    with Cons False eq show ?thesis by simp
  qed
qed

lemma plan_slices_fail:
  assumes "d \<in> set ds"
      and "plan_slice E pl d = Inl e" "\<And>pl'. plan_slice E pl' d = Inl e"
  shows "\<exists>e'. plan_slices E pl ds = Inl e'"
  using assms(1)
proof (induction ds arbitrary: pl)
  case Nil
  then show ?case by simp
next
  case (Cons d' ds)
  show ?case
  proof (cases "plan_slice E pl d'")
    case (Inl e')
    then show ?thesis by simp
  next
    case (Inr pl1)
    with assms(3) [of pl] have "d \<noteq> d'" by auto
    with Cons.prems have "d \<in> set ds" by simp
    from Cons.IH [OF this, of pl1] Inr show ?thesis by simp
  qed
qed

lemma MergePlanner_init_allow_crimes:
  "MergePlanner_init E cfg arch out_path (options\<lparr>allow_crimes := b\<rparr>)
     = MergePlanner_init E cfg arch out_path options"
  by (simp add: MergePlanner_init_def split: sum.splits)

text \<open>
  Claim C4. \<^verbatim>\<open>plan_slice\<close> raises \<^verbatim>\<open>RuntimeError("All inputs to a slice must contain the
  same number of layers")\<close> if and only if some source's \<^verbatim>\<open>layer_range[1] -
  layer_range[0]\<close> differs from the first source's. Planning does not depend on
  \<^verbatim>\<open>allow_crimes\<close>. When a slice of the configuration raises so, \<^verbatim>\<open>plan\<close> raises
  and returns no task, so nothing can be executed.
\<close>

theorem plan_slice_unequal_lengths:
  "(plan_slice E pl d =
      Inl (RuntimeError ''All inputs to a slice must contain the same number of layers'')
    \<longleftrightarrow> (\<exists>s0 rest. sources d = s0 # rest
          \<and> (\<exists>s\<in>set rest. snd (layer_range s) - fst (layer_range s)
                              \<noteq> snd (layer_range s0) - fst (layer_range s0))))
   \<and> plan_config E cfg arch out_path (options\<lparr>allow_crimes := b\<rparr>)
       = plan_config E cfg arch out_path options
   \<and> (plan_slice E pl d =
         Inl (RuntimeError ''All inputs to a slice must contain the same number of layers'')
       \<and> slices (config pl) = Some ds \<and> d \<in> set ds
       \<longrightarrow> (\<exists>e. plan E pl = Inl e))"
proof (intro conjI impI)
  show "plan_slice E pl d =
      Inl (RuntimeError ''All inputs to a slice must contain the same number of layers'')
    \<longleftrightarrow> (\<exists>s0 rest. sources d = s0 # rest
          \<and> (\<exists>s\<in>set rest. snd (layer_range s) - fst (layer_range s)
                              \<noteq> snd (layer_range s0) - fst (layer_range s0)))"
    by (rule plan_slice_raises_iff)
next
  show "plan_config E cfg arch out_path (options\<lparr>allow_crimes := b\<rparr>)
          = plan_config E cfg arch out_path options"
    by (simp add: plan_config_def MergePlanner_init_allow_crimes)
next
  let ?err = "RuntimeError ''All inputs to a slice must contain the same number of layers''"
  assume a: "plan_slice E pl d = Inl ?err \<and> slices (config pl) = Some ds \<and> d \<in> set ds"
  then have every: "\<And>pl'. plan_slice E pl' d = Inl ?err"
    using plan_slice_raises_iff [of E pl d] plan_slice_raises_iff [of E _ d] by simp
  show "\<exists>e. plan E pl = Inl e"
  proof (cases "plan_weights E (pl\<lparr>tasks := []\<rparr>) first_slice (IntNum 0)
                  (pre_weights (arch_info (pl\<lparr>tasks := []\<rparr>)))")
    case (Inl e)
    then show ?thesis by (simp add: plan_def)
  next
    case (Inr pl1)
    from plan_weights_config [OF Inr] a have sl: "slices (config pl1) = Some ds" by simp
    from a have "d \<in> set ds" by simp
    from plan_slices_fail [OF this every every] obtain e' where
      "plan_slices E pl1 ds = Inl e'" by blast
    with Inr sl show ?thesis by (simp add: plan_def)
  qed
qed

theorem plan_slice_unequal_lengths_witness:
  "plan_slice example_collaborators uneven_planner uneven_slice =
      Inl (RuntimeError ''All inputs to a slice must contain the same number of layers'')
   \<and> (\<exists>e. plan example_collaborators uneven_planner = Inl e)
   \<and> plan_slice example_collaborators stack_planner middle_slice \<noteq>
      Inl (RuntimeError ''All inputs to a slice must contain the same number of layers'')"
proof -
  note uneven = plan_slice_unequal_lengths
    [where E = example_collaborators and pl = uneven_planner and d = uneven_slice
       and cfg = gpt2_stack and arch = example_architecture and out_path = "''out''"
       and options = default_options and b = True and ds = "[uneven_slice]"]
  note even = plan_slice_unequal_lengths
    [where E = example_collaborators and pl = stack_planner and d = middle_slice
       and cfg = gpt2_stack and arch = example_architecture and out_path = "''out''"
       and options = default_options and b = True and ds = "[middle_slice]"]
  have differ: "\<exists>s0 rest. sources uneven_slice = s0 # rest
          \<and> (\<exists>s\<in>set rest. snd (layer_range s) - fst (layer_range s)
                              \<noteq> snd (layer_range s0) - fst (layer_range s0))"
    by (simp add: uneven_slice_def)
  with uneven have raised: "plan_slice example_collaborators uneven_planner uneven_slice =
      Inl (RuntimeError ''All inputs to a slice must contain the same number of layers'')"
    by blast
  have "slices (config uneven_planner) = Some [uneven_slice]" "uneven_slice \<in> set [uneven_slice]"
    by (simp_all add: uneven_planner_def)
  with uneven raised have failed: "\<exists>e. plan example_collaborators uneven_planner = Inl e"
    by blast
  have "\<not> (\<exists>s0 rest. sources middle_slice = s0 # rest
          \<and> (\<exists>s\<in>set rest. snd (layer_range s) - fst (layer_range s)
                              \<noteq> snd (layer_range s0) - fst (layer_range s0)))"
    by (simp add: middle_slice_def)
  with even have "plan_slice example_collaborators stack_planner middle_slice \<noteq>
      Inl (RuntimeError ''All inputs to a slice must contain the same number of layers'')"
    by blast
  with raised failed show ?thesis by blast
qed

subsection \<open>The interpolation fraction\<close>

lemma plan_slice_layers_fractions:
  assumes "\<forall>idx\<in>set idxs. 0 \<le> idx \<and> idx < n"
  shows "plan_slice_layers E pl d rd n idxs =
           plan_layers_with E pl (sources d) (for_in_slices rd (Some (sources d)))
             (map (\<lambda>idx. (idx, interpolation_fraction n idx)) idxs)"
  using assms
proof (induction idxs arbitrary: pl)
  case Nil
  then show ?case by simp
next
  case (Cons idx idxs)
  then have range: "0 \<le> idx" "idx < n" by simp_all
  have frac: "(if n > 1 then py_truediv idx (n - 1) else Inr (IntNum 1))
                = Inr (interpolation_fraction n idx)"
    using range by (simp add: py_truediv_def interpolation_fraction_def)
  from Cons have "\<forall>i\<in>set idxs. 0 \<le> i \<and> i < n" by simp
  from Cons.IH [OF this] show ?case
    by (simp add: frac split: sum.splits)
qed

lemma set_py_range: "set (py_range n) = {idx. 0 \<le> idx \<and> idx < n}"
proof -
  have "idx \<in> set (py_range n) \<longleftrightarrow> 0 \<le> idx \<and> idx < n" for idx
  proof
    assume "idx \<in> set (py_range n)"
    then obtain k where "idx = int k" "k < nat n" by (auto simp: py_range_def)
    then show "0 \<le> idx \<and> idx < n" by simp
  next
    assume a: "0 \<le> idx \<and> idx < n"
    then have "nat idx < nat n" "idx = int (nat idx)" by simp_all
    then show "idx \<in> set (py_range n)"
      unfolding py_range_def by (metis atLeast0LessThan imageI lessThan_iff set_map set_upt)
  qed
  then show ?thesis by blast
qed

lemma plan_slice_as_layers:
  assumes "sources d = s0 # rest"
      and "n = snd (layer_range s0) - fst (layer_range s0)"
      and "\<forall>s\<in>set rest. snd (layer_range s) - fst (layer_range s) = n"
  shows "plan_slice E pl d =
           plan_layers_with E pl (sources d)
             \<lparr> reader_config = config pl, t = IntNum 0, reader_tensor_name = None,
               slice_out = Some d, slices_in = Some (sources d) \<rparr>
             (map (\<lambda>idx. (idx, interpolation_fraction n idx)) (py_range n))
         \<and> set (py_range n) = {idx. 0 \<le> idx \<and> idx < n}
         \<and> plan_slice E pl d \<noteq> Inl ZeroDivisionError"
proof (intro conjI)
  have equal: "list_all (\<lambda>l. l = n) (map (\<lambda>s. snd (layer_range s) - fst (layer_range s)) rest)"
    using assms(3) by (simp add: list_all_iff)
  have "\<forall>idx\<in>set (py_range n). 0 \<le> idx \<and> idx < n"
    by (simp add: set_py_range)
  from plan_slice_layers_fractions [OF this]
  show "plan_slice E pl d =
           plan_layers_with E pl (sources d)
             \<lparr> reader_config = config pl, t = IntNum 0, reader_tensor_name = None,
               slice_out = Some d, slices_in = Some (sources d) \<rparr>
             (map (\<lambda>idx. (idx, interpolation_fraction n idx)) (py_range n))"
    using assms(1,2) equal
    by (simp add: plan_slice_def slice_lengths_def Let_def for_in_slices_def)
next
  show "set (py_range n) = {idx. 0 \<le> idx \<and> idx < n}"
    by (rule set_py_range)
next
  show "plan_slice E pl d \<noteq> Inl ZeroDivisionError"
    using plan_slice_error [of E pl d ZeroDivisionError] by auto
qed

lemma tensor_merge_method_tasks:
  "tensor_merge_method (pl\<lparr>tasks := ts\<rparr>) nm = tensor_merge_method pl nm"
  by (simp add: tensor_merge_method_def split: option.splits)

lemma plan_tensor_shift:
  assumes "plan_tensor E (pl\<lparr>tasks := ts\<rparr>) nm ni ms rd = Inr pl1"
  shows "\<exists>s. pl1 = pl\<lparr>tasks := ts @ [s]\<rparr>
           \<and> plan_tensor E pl nm ni ms rd = Inr (pl\<lparr>tasks := tasks pl @ [s]\<rparr>)"
  using assms
  by (auto simp: plan_tensor_def tensor_merge_method_tasks Let_def split: sum.splits)

lemma plan_tensor_parameters:
  assumes "plan_tensor E pl nm ni ms rd = Inr (pl\<lparr>tasks := tasks pl @ [s]\<rparr>)"
  shows "\<exists>g gp tp b.
           s = SaveTensor nm (MergeTask (tensor_merge_method pl nm) nm g gp tp b)
                 (writer_task pl) (planner_clone_tensors pl)
         \<and> resolve_parameters E (for_tensor (for_in_slices rd None) nm) None
               (method_parameters E (tensor_merge_method pl nm)) [] = Inr gp
         \<and> resolve_tensor_parameters E rd (method_tensor_parameters E (tensor_merge_method pl nm))
               (zip ms ni) [] = Inr tp"
proof -
  from assms obtain gp tp where
    gp: "resolve_parameters E (for_tensor (for_in_slices rd None) nm) None
           (method_parameters E (tensor_merge_method pl nm)) [] = Inr gp"
    and tp: "resolve_tensor_parameters E rd (method_tensor_parameters E (tensor_merge_method pl nm))
               (zip ms ni) [] = Inr tp"
    and pl': "pl\<lparr>tasks := tasks pl @ [s]\<rparr> =
       pl\<lparr>tasks := tasks pl @
         [SaveTensor nm
            (MergeTask (tensor_merge_method pl nm) nm
               (GatherTensors (dict_of (zip ms ni)) (dtype (config pl))) gp tp
               (case base_model (config pl) of
                  None \<Rightarrow> None
                | Some b \<Rightarrow> if b \<noteq> [] then Some (parse E b) else None))
            (writer_task pl) (planner_clone_tensors pl)]\<rparr>"
    by (auto simp: plan_tensor_def Let_def split: sum.splits)
  from pl' have "tasks (pl\<lparr>tasks := tasks pl @ [s]\<rparr>) =
       tasks (pl\<lparr>tasks := tasks pl @
         [SaveTensor nm
            (MergeTask (tensor_merge_method pl nm) nm
               (GatherTensors (dict_of (zip ms ni)) (dtype (config pl))) gp tp
               (case base_model (config pl) of
                  None \<Rightarrow> None
                | Some b \<Rightarrow> if b \<noteq> [] then Some (parse E b) else None))
            (writer_task pl) (planner_clone_tensors pl)]\<rparr>)"
    by (rule arg_cong)
  then have "s = SaveTensor nm
            (MergeTask (tensor_merge_method pl nm) nm
               (GatherTensors (dict_of (zip ms ni)) (dtype (config pl))) gp tp
               (case base_model (config pl) of
                  None \<Rightarrow> None
                | Some b \<Rightarrow> if b \<noteq> [] then Some (parse E b) else None))
            (writer_task pl) (planner_clone_tensors pl)"
    by simp
  with gp tp show ?thesis by blast
qed

lemma plan_layer_formats_block:
  "plan_layer_formats E (pl\<lparr>tasks := ts\<rparr>) srcs off x rd fs = Inr pl'
     \<Longrightarrow> \<exists>block. length block = length fs \<and> pl' = pl\<lparr>tasks := ts @ block\<rparr>
           \<and> (\<forall>i<length fs.
                 plan_tensor E pl (format_idx (fs ! i) (current_layers pl))
                   (map (\<lambda>s. format_idx (fs ! i) (fst (layer_range s) + off)) srcs)
                   (map model srcs) (with_t rd x)
                 = Inr (pl\<lparr>tasks := tasks pl @ [block ! i]\<rparr>))"
proof (induction fs arbitrary: ts)
  case Nil
  then have "length ([]::Task list) = length ([]::name_format list)
      \<and> pl' = pl\<lparr>tasks := ts @ []\<rparr>" by simp
  then show ?case by auto
next
  case (Cons f fs)
  from Cons.prems obtain pl1 where
    step: "plan_tensor E (pl\<lparr>tasks := ts\<rparr>) (format_idx f (current_layers pl))
             (map (\<lambda>s. format_idx f (fst (layer_range s) + off)) srcs) (map model srcs)
             (with_t rd x) = Inr pl1"
    and rest: "plan_layer_formats E pl1 srcs off x rd fs = Inr pl'"
    by (auto simp: Let_def split: sum.splits)
  from plan_tensor_shift [OF step] obtain s where
    pl1: "pl1 = pl\<lparr>tasks := ts @ [s]\<rparr>"
    and s: "plan_tensor E pl (format_idx f (current_layers pl))
             (map (\<lambda>s. format_idx f (fst (layer_range s) + off)) srcs) (map model srcs)
             (with_t rd x) = Inr (pl\<lparr>tasks := tasks pl @ [s]\<rparr>)"
    by blast
  from rest pl1 have "plan_layer_formats E (pl\<lparr>tasks := ts @ [s]\<rparr>) srcs off x rd fs = Inr pl'"
    by simp
  from Cons.IH [OF this] obtain block where
    len: "length block = length fs"
    and pl': "pl' = pl\<lparr>tasks := (ts @ [s]) @ block\<rparr>"
    and each: "\<forall>i<length fs.
                 plan_tensor E pl (format_idx (fs ! i) (current_layers pl))
                   (map (\<lambda>s. format_idx (fs ! i) (fst (layer_range s) + off)) srcs)
                   (map model srcs) (with_t rd x)
                 = Inr (pl\<lparr>tasks := tasks pl @ [block ! i]\<rparr>)"
    by blast
  have "length (s # block) = length (f # fs)"
    using len by simp
  moreover have "pl' = pl\<lparr>tasks := ts @ (s # block)\<rparr>"
    using pl' by simp
  moreover have "\<forall>i<length (f # fs).
                 plan_tensor E pl (format_idx ((f # fs) ! i) (current_layers pl))
                   (map (\<lambda>s. format_idx ((f # fs) ! i) (fst (layer_range s) + off)) srcs)
                   (map model srcs) (with_t rd x)
                 = Inr (pl\<lparr>tasks := tasks pl @ [(s # block) ! i]\<rparr>)"
  proof (intro allI impI)
    fix i assume "i < length (f # fs)"
    then show "plan_tensor E pl (format_idx ((f # fs) ! i) (current_layers pl))
                   (map (\<lambda>s. format_idx ((f # fs) ! i) (fst (layer_range s) + off)) srcs)
                   (map model srcs) (with_t rd x)
                 = Inr (pl\<lparr>tasks := tasks pl @ [(s # block) ! i]\<rparr>)"
      using s each by (cases i) auto
  qed
  ultimately show ?case by blast
qed

lemma plan_layers_with_blocks:
  "plan_layers_with E (pl\<lparr>tasks := ts\<rparr>) srcs rd pairs = Inr pl'
     \<Longrightarrow> \<exists>blocks. length blocks = length pairs \<and> pl' = pl\<lparr>tasks := ts @ concat blocks\<rparr>
           \<and> (\<forall>k<length pairs.
                 length (blocks ! k) = length (layer_weight_formats (arch_info pl))
                 \<and> (\<forall>i<length (layer_weight_formats (arch_info pl)).
                       plan_tensor E pl
                         (format_idx (layer_weight_formats (arch_info pl) ! i) (current_layers pl))
                         (map (\<lambda>s. format_idx (layer_weight_formats (arch_info pl) ! i)
                                      (fst (layer_range s) + fst (pairs ! k))) srcs)
                         (map model srcs) (with_t rd (snd (pairs ! k)))
                       = Inr (pl\<lparr>tasks := tasks pl @ [blocks ! k ! i]\<rparr>)))"
proof (induction pairs arbitrary: ts)
  case Nil
  then have "length ([]::Task list list) = length ([]::(int \<times> number) list)
      \<and> pl' = pl\<lparr>tasks := ts @ concat []\<rparr>" by simp
  then show ?case by auto
next
  case (Cons p pairs)
  obtain off x where p: "p = (off, x)" by (cases p)
  from Cons.prems p obtain pl1 where
    step: "plan_layer_formats E (pl\<lparr>tasks := ts\<rparr>) srcs off x rd
             (layer_weight_formats (arch_info pl)) = Inr pl1"
    and rest: "plan_layers_with E pl1 srcs rd pairs = Inr pl'"
    by (auto simp: plan_layer_def split: sum.splits)
  from plan_layer_formats_block [OF step] obtain block where
    len: "length block = length (layer_weight_formats (arch_info pl))"
    and pl1: "pl1 = pl\<lparr>tasks := ts @ block\<rparr>"
    and each: "\<forall>i<length (layer_weight_formats (arch_info pl)).
                 plan_tensor E pl
                   (format_idx (layer_weight_formats (arch_info pl) ! i) (current_layers pl))
                   (map (\<lambda>s. format_idx (layer_weight_formats (arch_info pl) ! i)
                                (fst (layer_range s) + off)) srcs)
                   (map model srcs) (with_t rd x)
                 = Inr (pl\<lparr>tasks := tasks pl @ [block ! i]\<rparr>)"
    by blast
  from rest pl1 have "plan_layers_with E (pl\<lparr>tasks := ts @ block\<rparr>) srcs rd pairs = Inr pl'"
    by simp
  from Cons.IH [OF this] obtain blocks where
    lens: "length blocks = length pairs"
    and pl': "pl' = pl\<lparr>tasks := (ts @ block) @ concat blocks\<rparr>"
    and all: "\<forall>k<length pairs.
                 length (blocks ! k) = length (layer_weight_formats (arch_info pl))
                 \<and> (\<forall>i<length (layer_weight_formats (arch_info pl)).
                       plan_tensor E pl
                         (format_idx (layer_weight_formats (arch_info pl) ! i) (current_layers pl))
                         (map (\<lambda>s. format_idx (layer_weight_formats (arch_info pl) ! i)
                                      (fst (layer_range s) + fst (pairs ! k))) srcs)
                         (map model srcs) (with_t rd (snd (pairs ! k)))
                       = Inr (pl\<lparr>tasks := tasks pl @ [blocks ! k ! i]\<rparr>))"
    by blast
  have "length (block # blocks) = length (p # pairs)"
    using lens by simp
  moreover have "pl' = pl\<lparr>tasks := ts @ concat (block # blocks)\<rparr>"
    using pl' by simp
  moreover have "\<forall>k<length (p # pairs).
                 length ((block # blocks) ! k) = length (layer_weight_formats (arch_info pl))
                 \<and> (\<forall>i<length (layer_weight_formats (arch_info pl)).
                       plan_tensor E pl
                         (format_idx (layer_weight_formats (arch_info pl) ! i) (current_layers pl))
                         (map (\<lambda>s. format_idx (layer_weight_formats (arch_info pl) ! i)
                                      (fst (layer_range s) + fst ((p # pairs) ! k))) srcs)
                         (map model srcs) (with_t rd (snd ((p # pairs) ! k)))
                       = Inr (pl\<lparr>tasks := tasks pl @ [(block # blocks) ! k ! i]\<rparr>))"
  proof (intro allI impI)
    fix k assume "k < length (p # pairs)"
    then show "length ((block # blocks) ! k) = length (layer_weight_formats (arch_info pl))
                 \<and> (\<forall>i<length (layer_weight_formats (arch_info pl)).
                       plan_tensor E pl
                         (format_idx (layer_weight_formats (arch_info pl) ! i) (current_layers pl))
                         (map (\<lambda>s. format_idx (layer_weight_formats (arch_info pl) ! i)
                                      (fst (layer_range s) + fst ((p # pairs) ! k))) srcs)
                         (map model srcs) (with_t rd (snd ((p # pairs) ! k)))
                       = Inr (pl\<lparr>tasks := tasks pl @ [(block # blocks) ! k ! i]\<rparr>))"
      using len each all p by (cases k) auto
  qed
  ultimately show ?case by blast
qed

lemma py_range_nth:
  assumes "0 \<le> idx" "idx < n"
  shows "nat idx < length (py_range n)" "py_range n ! nat idx = idx"
  using assms by (simp_all add: py_range_def)

lemma plan_slice_equal_lengths:
  assumes "plan_slice E pl d = Inr pl'" "sources d = s0 # rest"
  shows "\<forall>s\<in>set rest. snd (layer_range s) - fst (layer_range s)
                        = snd (layer_range s0) - fst (layer_range s0)"
  using assms
  by (auto simp: plan_slice_def slice_lengths_def list_all_iff split: if_splits)

lemma fraction_slice_succeeds:
  "(case plan_slice fraction_collaborators stack_planner middle_slice of
      Inl e \<Rightarrow> False | Inr r \<Rightarrow> True)"
  by code_simp

lemma fraction_slice_parameters:
  "map_sum id (\<lambda>p. map merge_parameters (tasks p))
      (plan_slice fraction_collaborators stack_planner middle_slice)
   = Inr [[(''t'', NumValue (TrueDiv 0 2))], [(''t'', NumValue (TrueDiv 1 2))],
          [(''t'', NumValue (TrueDiv 2 2))]]"
  by code_simp

text \<open>
  Claim C5. When \<^verbatim>\<open>plan_slice\<close> succeeds on a slice of \<open>n\<close> layers, it has appended one
  block of save tasks per output layer index \<open>idx\<close> of \<open>[0, n)\<close>, one task per weight
  template. Each of those tasks is the one \<^verbatim>\<open>plan_tensor\<close> appends when its reader
  carries \<open>t = idx/(n - 1)\<close> for \<open>n > 1\<close> and \<open>t = 1\<close> for \<open>n = 1\<close>: the parameters of
  its merge task are the ones that reader resolves. \<^verbatim>\<open>plan_slice\<close> never raises
  \<^verbatim>\<open>ZeroDivisionError\<close>.
\<close>

theorem plan_slice_interpolation:
  "(plan_slice E pl d = Inr pl' \<and> sources d = s0 # rest
      \<and> n = snd (layer_range s0) - fst (layer_range s0)
    \<longrightarrow> (\<exists>blocks. tasks pl' = tasks pl @ concat blocks \<and> length blocks = nat n
          \<and> (\<forall>idx i. 0 \<le> idx \<and> idx < n \<and> i < length (layer_weight_formats (arch_info pl)) \<longrightarrow>
                (let f = layer_weight_formats (arch_info pl) ! i;
                     nm = format_idx f (current_layers pl);
                     names_in = map (\<lambda>s. format_idx f (fst (layer_range s) + idx)) (sources d);
                     mdls = map model (sources d);
                     rd = \<lparr> reader_config = config pl,
                            t = (if n = 1 then IntNum 1 else TrueDiv idx (n - 1)),
                            reader_tensor_name = None, slice_out = Some d,
                            slices_in = Some (sources d) \<rparr>;
                     tmm = tensor_merge_method pl nm;
                     s = blocks ! nat idx ! i
                 in length (blocks ! nat idx) = length (layer_weight_formats (arch_info pl))
                    \<and> plan_tensor E pl nm names_in mdls rd = Inr (pl\<lparr>tasks := tasks pl @ [s]\<rparr>)
                    \<and> (\<exists>g gp tp b.
                          s = SaveTensor nm (MergeTask tmm nm g gp tp b)
                                (writer_task pl) (planner_clone_tensors pl)
                        \<and> resolve_parameters E (for_tensor (for_in_slices rd None) nm) None
                              (method_parameters E tmm) [] = Inr gp
                        \<and> resolve_tensor_parameters E rd (method_tensor_parameters E tmm)
                              (zip mdls names_in) [] = Inr tp)))))
   \<and> plan_slice E pl d \<noteq> Inl ZeroDivisionError"
proof (intro conjI impI)
  assume a: "plan_slice E pl d = Inr pl' \<and> sources d = s0 # rest
      \<and> n = snd (layer_range s0) - fst (layer_range s0)"
  then have run: "plan_slice E pl d = Inr pl'" and src: "sources d = s0 # rest"
    and n: "n = snd (layer_range s0) - fst (layer_range s0)"
    by simp_all
  let ?fs = "layer_weight_formats (arch_info pl)"
  let ?rd0 = "\<lparr> reader_config = config pl, t = IntNum 0, reader_tensor_name = None,
                slice_out = Some d, slices_in = Some (sources d) \<rparr>"
  let ?pairs = "map (\<lambda>idx. (idx, interpolation_fraction n idx)) (py_range n)"
  from plan_slice_equal_lengths [OF run src] n
  have equal: "\<forall>s\<in>set rest. snd (layer_range s) - fst (layer_range s) = n"
    by simp
  from plan_slice_as_layers [OF src n equal, of E pl] run
  have "plan_layers_with E pl (sources d) ?rd0 ?pairs = Inr pl'"
    by simp
  then have "plan_layers_with E (pl\<lparr>tasks := tasks pl\<rparr>) (sources d) ?rd0 ?pairs = Inr pl'"
    by simp
  from plan_layers_with_blocks [OF this] obtain blocks where
    len: "length blocks = length ?pairs"
    and pl': "pl' = pl\<lparr>tasks := tasks pl @ concat blocks\<rparr>"
    and all: "\<forall>k<length ?pairs.
                 length (blocks ! k) = length ?fs
                 \<and> (\<forall>i<length ?fs.
                       plan_tensor E pl (format_idx (?fs ! i) (current_layers pl))
                         (map (\<lambda>s. format_idx (?fs ! i) (fst (layer_range s) + fst (?pairs ! k)))
                            (sources d))
                         (map model (sources d)) (with_t ?rd0 (snd (?pairs ! k)))
                       = Inr (pl\<lparr>tasks := tasks pl @ [blocks ! k ! i]\<rparr>))"
    by blast
  have tasks: "tasks pl' = tasks pl @ concat blocks"
    using pl' by simp
  have count: "length blocks = nat n"
    using len by (simp add: py_range_def)
  have each: "let f = ?fs ! i;
                  nm = format_idx f (current_layers pl);
                  names_in = map (\<lambda>s. format_idx f (fst (layer_range s) + idx)) (sources d);
                  mdls = map model (sources d);
                  rd = \<lparr> reader_config = config pl,
                         t = (if n = 1 then IntNum 1 else TrueDiv idx (n - 1)),
                         reader_tensor_name = None, slice_out = Some d,
                         slices_in = Some (sources d) \<rparr>;
                  tmm = tensor_merge_method pl nm;
                  s = blocks ! nat idx ! i
              in length (blocks ! nat idx) = length ?fs
                 \<and> plan_tensor E pl nm names_in mdls rd = Inr (pl\<lparr>tasks := tasks pl @ [s]\<rparr>)
                 \<and> (\<exists>g gp tp b.
                       s = SaveTensor nm (MergeTask tmm nm g gp tp b)
                             (writer_task pl) (planner_clone_tensors pl)
                     \<and> resolve_parameters E (for_tensor (for_in_slices rd None) nm) None
                           (method_parameters E tmm) [] = Inr gp
                     \<and> resolve_tensor_parameters E rd (method_tensor_parameters E tmm)
                           (zip mdls names_in) [] = Inr tp)"
    if range: "0 \<le> idx \<and> idx < n \<and> i < length ?fs" for idx i
  proof -
    from range have k: "nat idx < length ?pairs" and pair: "?pairs ! nat idx = (idx, interpolation_fraction n idx)"
      using py_range_nth [of idx n] by simp_all
    have reader: "with_t ?rd0 (interpolation_fraction n idx) =
        \<lparr> reader_config = config pl, t = (if n = 1 then IntNum 1 else TrueDiv idx (n - 1)),
          reader_tensor_name = None, slice_out = Some d, slices_in = Some (sources d) \<rparr>"
      by (simp add: with_t_def interpolation_fraction_def)
    from all k have "length (blocks ! nat idx) = length ?fs
                 \<and> (\<forall>i<length ?fs.
                       plan_tensor E pl (format_idx (?fs ! i) (current_layers pl))
                         (map (\<lambda>s. format_idx (?fs ! i) (fst (layer_range s) + fst (?pairs ! nat idx)))
                            (sources d))
                         (map model (sources d)) (with_t ?rd0 (snd (?pairs ! nat idx)))
                       = Inr (pl\<lparr>tasks := tasks pl @ [blocks ! nat idx ! i]\<rparr>))"
      by blast
    with range pair reader have blk: "length (blocks ! nat idx) = length ?fs"
      and call: "plan_tensor E pl (format_idx (?fs ! i) (current_layers pl))
                   (map (\<lambda>s. format_idx (?fs ! i) (fst (layer_range s) + idx)) (sources d))
                   (map model (sources d))
                   \<lparr> reader_config = config pl, t = (if n = 1 then IntNum 1 else TrueDiv idx (n - 1)),
                     reader_tensor_name = None, slice_out = Some d, slices_in = Some (sources d) \<rparr>
                 = Inr (pl\<lparr>tasks := tasks pl @ [blocks ! nat idx ! i]\<rparr>)"
      by simp_all
    from plan_tensor_parameters [OF call] blk call show ?thesis
      unfolding Let_def by blast
  qed
  from tasks count each
  show "\<exists>blocks. tasks pl' = tasks pl @ concat blocks \<and> length blocks = nat n
          \<and> (\<forall>idx i. 0 \<le> idx \<and> idx < n \<and> i < length ?fs \<longrightarrow>
                (let f = ?fs ! i;
                     nm = format_idx f (current_layers pl);
                     names_in = map (\<lambda>s. format_idx f (fst (layer_range s) + idx)) (sources d);
                     mdls = map model (sources d);
                     rd = \<lparr> reader_config = config pl,
                            t = (if n = 1 then IntNum 1 else TrueDiv idx (n - 1)),
                            reader_tensor_name = None, slice_out = Some d,
                            slices_in = Some (sources d) \<rparr>;
                     tmm = tensor_merge_method pl nm;
                     s = blocks ! nat idx ! i
                 in length (blocks ! nat idx) = length ?fs
                    \<and> plan_tensor E pl nm names_in mdls rd = Inr (pl\<lparr>tasks := tasks pl @ [s]\<rparr>)
                    \<and> (\<exists>g gp tp b.
                          s = SaveTensor nm (MergeTask tmm nm g gp tp b)
                                (writer_task pl) (planner_clone_tensors pl)
                        \<and> resolve_parameters E (for_tensor (for_in_slices rd None) nm) None
                              (method_parameters E tmm) [] = Inr gp
                        \<and> resolve_tensor_parameters E rd (method_tensor_parameters E tmm)
                              (zip mdls names_in) [] = Inr tp)))"
    by blast
next
  show "plan_slice E pl d \<noteq> Inl ZeroDivisionError"
    using plan_slice_error [of E pl d ZeroDivisionError] by auto
qed

lemma fraction_single_parameters:
  "map_sum id (\<lambda>p. map merge_parameters (tasks p))
      (plan_slice fraction_collaborators stack_planner single_slice)
   = Inr [[(''t'', NumValue (IntNum 1))]]"
  by code_simp

theorem plan_slice_interpolation_witness:
  "(\<exists>pl' blocks. plan_slice fraction_collaborators stack_planner middle_slice = Inr pl'
     \<and> tasks pl' = concat blocks \<and> length blocks = 3
     \<and> merge_parameters (blocks ! 1 ! 0) = [(''t'', NumValue (TrueDiv 1 2))]
     \<and> map merge_parameters (tasks pl')
         = [[(''t'', NumValue (TrueDiv 0 2))], [(''t'', NumValue (TrueDiv 1 2))],
            [(''t'', NumValue (TrueDiv 2 2))]])
   \<and> map_sum id (\<lambda>p. map merge_parameters (tasks p))
         (plan_slice fraction_collaborators stack_planner single_slice)
       = Inr [[(''t'', NumValue (IntNum 1))]]"
proof (rule conjI [OF _ fraction_single_parameters])
  from fraction_slice_succeeds obtain pl' where
    run: "plan_slice fraction_collaborators stack_planner middle_slice = Inr pl'"
    by (cases "plan_slice fraction_collaborators stack_planner middle_slice") auto
  have hyp: "plan_slice fraction_collaborators stack_planner middle_slice = Inr pl'
      \<and> sources middle_slice = \<lparr> model = ''gpt2'', layer_range = (4, 7) \<rparr> # []
      \<and> (3::int) = snd (layer_range \<lparr> model = ''gpt2'', layer_range = (4, 7) \<rparr>)
                   - fst (layer_range \<lparr> model = ''gpt2'', layer_range = (4, 7) \<rparr>)"
    using run by (simp add: middle_slice_def)
  from plan_slice_interpolation
         [of fraction_collaborators stack_planner middle_slice pl'
             "\<lparr> model = ''gpt2'', layer_range = (4, 7) \<rparr>" "[]" 3] hyp
  obtain blocks where
    tasks: "tasks pl' = tasks stack_planner @ concat blocks"
    and len: "length blocks = nat 3"
    and each: "\<forall>idx i. 0 \<le> idx \<and> idx < 3
                 \<and> i < length (layer_weight_formats (arch_info stack_planner)) \<longrightarrow>
                (let f = layer_weight_formats (arch_info stack_planner) ! i;
                     nm = format_idx f (current_layers stack_planner);
                     names_in = map (\<lambda>s. format_idx f (fst (layer_range s) + idx))
                                  (sources middle_slice);
                     mdls = map model (sources middle_slice);
                     rd = \<lparr> reader_config = config stack_planner,
                            t = (if (3::int) = 1 then IntNum 1 else TrueDiv idx (3 - 1)),
                            reader_tensor_name = None, slice_out = Some middle_slice,
                            slices_in = Some (sources middle_slice) \<rparr>;
                     tmm = tensor_merge_method stack_planner nm;
                     s = blocks ! nat idx ! i
                 in length (blocks ! nat idx) = length (layer_weight_formats (arch_info stack_planner))
                    \<and> plan_tensor fraction_collaborators stack_planner nm names_in mdls rd
                        = Inr (stack_planner\<lparr>tasks := tasks stack_planner @ [s]\<rparr>)
                    \<and> (\<exists>g gp tp b.
                          s = SaveTensor nm (MergeTask tmm nm g gp tp b)
                                (writer_task stack_planner) (planner_clone_tensors stack_planner)
                        \<and> resolve_parameters fraction_collaborators
                              (for_tensor (for_in_slices rd None) nm) None
                              (method_parameters fraction_collaborators tmm) [] = Inr gp
                        \<and> resolve_tensor_parameters fraction_collaborators rd
                              (method_tensor_parameters fraction_collaborators tmm)
                              (zip mdls names_in) [] = Inr tp))"
    by blast
  have range: "0 \<le> (1::int) \<and> (1::int) < 3
      \<and> 0 < length (layer_weight_formats (arch_info stack_planner))"
    by (simp add: stack_planner_def example_architecture_def)
  from each [rule_format, of 1 0, OF range]
  have middle: "merge_parameters (blocks ! 1 ! 0) = [(''t'', NumValue (TrueDiv 1 2))]"
    by (auto simp: Let_def fraction_collaborators_def for_tensor_def for_in_slices_def foreign_def)
  have whole: "tasks pl' = concat blocks"
    using tasks by (simp add: stack_planner_def)
  have three: "length blocks = 3"
    using len by simp
  have params: "map merge_parameters (tasks pl')
         = [[(''t'', NumValue (TrueDiv 0 2))], [(''t'', NumValue (TrueDiv 1 2))],
            [(''t'', NumValue (TrueDiv 2 2))]]"
    using fraction_slice_parameters run by simp
  show "\<exists>pl' blocks. plan_slice fraction_collaborators stack_planner middle_slice = Inr pl'
     \<and> tasks pl' = concat blocks \<and> length blocks = 3
     \<and> merge_parameters (blocks ! 1 ! 0) = [(''t'', NumValue (TrueDiv 1 2))]
     \<and> map merge_parameters (tasks pl')
         = [[(''t'', NumValue (TrueDiv 0 2))], [(''t'', NumValue (TrueDiv 1 2))],
            [(''t'', NumValue (TrueDiv 2 2))]]"
    by (rule exI [of _ pl'], rule exI [of _ blocks], intro conjI)
       (rule run whole three middle params)+
qed

subsection \<open>Output names\<close>

text \<open>
  Claim C3. Every output weight name should be produced by exactly one save task. On the
  configuration of \<^verbatim>\<open>test_gpt2_stack\<close> (one slice of layers 0 to 12) the plan holds
  twelve save tasks named \<^verbatim>\<open>h.0.attn.weight\<close>: \<^verbatim>\<open>plan_layer\<close> formats the output
  name with \<^verbatim>\<open>self._current_layers\<close>, which nothing ever increments. The tasks at
  positions 1 and 2 are both save tasks and differ (they gather layers 0 and 1 of the
  source), yet carry the same output name.
\<close>

theorem plan_stack_repeats_output_name:
  "map_sum id (\<lambda>r. map tensor_name (fst r))
      (plan_config example_collaborators gpt2_stack example_architecture ''out'' default_options)
     = Inr ([Some ''wte.weight''] @ replicate 12 (Some ''h.0.attn.weight'')
            @ [Some ''ln_f.weight'', None, None])
   \<and> map_sum id (\<lambda>r. (is_save (fst r ! 1), is_save (fst r ! 2), fst r ! 1 = fst r ! 2))
      (plan_config example_collaborators gpt2_stack example_architecture ''out'' default_options)
     = Inr (True, True, False)"
  by code_simp

subsection \<open>The tokenizer task\<close>

text \<open>
  Claim C9. The tokenizer task should be in the plan if and only if tokenizer construction was
  requested. \<^verbatim>\<open>__init__\<close> builds it when \<^verbatim>\<open>config.merge_method\<close> is truthy, so the plan
  of a planner holds a tokenizer task exactly when the configuration names a merge
  method, which every configuration does: the plan for \<^verbatim>\<open>test_gpt2_stack\<close>, which asks
  for no tokenizer, ends with one.
\<close>

theorem plan_tokenizer_iff_merge_method:
  assumes "plan_config E cfg arch out_path options = Inr (res, pl')"
  shows "list_ex is_tokenizer res \<longleftrightarrow> merge_method cfg \<noteq> []"
proof -
  from assms obtain pl where
    init: "MergePlanner_init E cfg arch out_path options = Inr pl"
    and run: "plan E pl = Inr (res, pl')"
    by (auto simp: plan_config_def split: sum.splits)
  from init have tk: "tokenizer_task pl =
      (if merge_method cfg \<noteq> [] then Some (BuildTokenizer cfg (trust_remote_code options)) else None)"
    by (auto simp: MergePlanner_init_def split: sum.splits)
  from plan_result [OF run] obtain saves where
    saves: "list_all is_save saves"
    and res: "res = saves @ [FinalizeModel saves (writer_task pl)]
                @ (case tokenizer_task pl of Some tk \<Rightarrow> [TokenizerTask tk] | None \<Rightarrow> [])"
    by blast
  have "\<not> list_ex is_tokenizer saves"
    using saves by (induction saves) (auto elim: is_save.elims)
  with res tk show ?thesis by (simp add: list_ex_iff)
qed

theorem plan_tokenizer_iff_merge_method_witness:
  "\<exists>res pl'. plan_config example_collaborators gpt2_stack example_architecture ''out''
                default_options = Inr (res, pl')
     \<and> list_ex is_tokenizer res"
proof -
  from stack_config_plan_succeeds obtain res pl' where
    run: "plan_config example_collaborators gpt2_stack example_architecture ''out''
            default_options = Inr (res, pl')"
    by (cases "plan_config example_collaborators gpt2_stack example_architecture ''out''
                 default_options") auto
  have "merge_method gpt2_stack \<noteq> []"
    by (simp add: gpt2_stack_def)
  with plan_tokenizer_iff_merge_method [OF run] run show ?thesis by blast
qed

section \<open>Properties of the driver\<close>

lemma MergePlanner_call_run_merge:
  "MergePlanner_call E [ArgConfig c, ArgArch a]
     [(''out_path'', ArgStr p), (''max_shard_size'', ArgInt n), (''clone_tensors'', ArgBool b)]
   = Inl (TypeError (UnexpectedKeyword ''max_shard_size''))"
  by (simp add: MergePlanner_call_def bind_arguments_def MergePlanner_params_def)

lemma architecture_infos_error:
  "architecture_infos E ms = Inl e \<Longrightarrow> \<exists>msg. e = Foreign msg"
  by (induction ms arbitrary: e) (auto simp: foreign_def split: sum.splits)

lemma run_merge_unfold:
  "run_merge E cfg out_path options =
     (case seeding options of
        Inl e \<Rightarrow> (Inl e, [])
      | Inr log0 \<Rightarrow>
          if \<not> truthy (models cfg) \<and> \<not> truthy (slices cfg)
          then (Inl (RuntimeError ''No output requested''), log0)
          else
            (case architecture_infos E (referenced_models E cfg) of
               Inl e \<Rightarrow> (Inl e, log0)
             | Inr model_arch_info \<Rightarrow>
                 if \<not> allow_crimes options \<and> \<not> same_architecture model_arch_info
                 then (Inl (RuntimeError
                         ''Must specify --allow-crimes to attempt to mix different architectures''),
                       log0)
                 else
                   (case model_arch_info of
                      [] \<Rightarrow> (Inl IndexError, log0)
                    | arch # others \<Rightarrow>
                        (Inl (TypeError (UnexpectedKeyword ''max_shard_size'')),
                         log0 @ [LoaderCacheOptions (lazy_unpickle options)
                                   (lora_merge_cache options) (transformers_cache options)]))))"
  by (simp add: run_merge_def MergePlanner_call_run_merge Let_def split: sum.splits list.splits)

lemma seeding_cases:
  "seeding options =
     (case random_seed options of
        None \<Rightarrow> Inr []
      | Some seed \<Rightarrow>
          if 0 \<le> seed \<and> seed \<le> 4294967295 then Inr [SetSeed seed]
          else Inl (ValueError ''Seed must be between 0 and 2**32 - 1''))"
  by (simp add: seeding_def set_seed_def split: option.splits)

lemma seeding_before_planning:
  "seeding options = Inr log0 \<Longrightarrow> list_all before_planning log0"
  by (auto simp: seeding_cases split: option.splits if_splits)

lemma seeding_default: "seeding default_options = Inr []"
  by (simp add: seeding_cases default_options_def)

lemma seeding_seeded: "seeding seeded_options = Inr [SetSeed 42]"
  by (simp add: seeding_cases seeded_options_def default_options_def)

lemma seeding_overflowing:
  "seeding overflowing_seed_options = Inl (ValueError ''Seed must be between 0 and 2**32 - 1'')"
  by (simp add: seeding_cases overflowing_seed_options_def default_options_def)

lemma all_equal_first:
  "list_all (\<lambda>a. a = a0) rest \<longleftrightarrow> (\<forall>a\<in>set (a0 # rest). \<forall>b\<in>set (a0 # rest). a = b)"
proof
  assume "list_all (\<lambda>a. a = a0) rest"
  then have "\<forall>a\<in>set (a0 # rest). a = a0" by (simp add: list_all_iff)
  then show "\<forall>a\<in>set (a0 # rest). \<forall>b\<in>set (a0 # rest). a = b" by metis
next
  assume "\<forall>a\<in>set (a0 # rest). \<forall>b\<in>set (a0 # rest). a = b"
  then have "\<forall>a\<in>set rest. a = a0" by simp
  then show "list_all (\<lambda>a. a = a0) rest" by (simp add: list_all_iff)
qed

lemma same_architecture_iff:
  "same_architecture infos \<longleftrightarrow> (\<forall>a\<in>set infos. \<forall>b\<in>set infos. a = b)"
proof (cases infos)
  case Nil
  then show ?thesis by simp
next
  case (Cons a0 rest)
  then show ?thesis using all_equal_first [of a0 rest] by simp
qed

lemma example_infos_copy:
  "architecture_infos example_collaborators (referenced_models example_collaborators gpt2_copy)
     = Inr [example_architecture]"
  by (simp add: example_collaborators_def gpt2_copy_def config_models_def foreign_def)

lemma example_infos_mixed:
  "architecture_infos example_collaborators (referenced_models example_collaborators mixed_config)
     = Inr [example_architecture, other_architecture]"
  by (simp add: example_collaborators_def mixed_config_def gpt2_copy_def config_models_def foreign_def)

lemma architectures_differ: "example_architecture \<noteq> other_architecture"
  by (simp add: example_architecture_def other_architecture_def)

text \<open>
  Claim C1. For a single-model passthrough configuration \<^verbatim>\<open>run_merge\<close> should complete
  and write every weight unchanged. On the configuration of \<^verbatim>\<open>test_gpt2_copy\<close> with
  default options it does not complete: the call of \<^verbatim>\<open>MergePlanner\<close> raises
  \<^verbatim>\<open>TypeError\<close> for the keyword \<^verbatim>\<open>max_shard_size\<close>, after the loader cache options
  are set and before any plan exists.
\<close>

theorem run_merge_passthrough_copy_raises:
  "run_merge example_collaborators gpt2_copy ''out'' default_options
     = (Inl (TypeError (UnexpectedKeyword ''max_shard_size'')), [LoaderCacheOptions False None None])"
  by (simp add: run_merge_unfold example_infos_copy seeding_default)
     (simp add: gpt2_copy_def default_options_def)

text \<open>
  Claim C2. For every configuration that passes the no-output check and the
  architecture check, \<^verbatim>\<open>run_merge\<close> raises before a plan is built, whatever the options.
  Once the seed is accepted and with at least one referenced model, the exception is the
  \<^verbatim>\<open>TypeError\<close> of the \<^verbatim>\<open>MergePlanner\<close> call, whose keywords \<^verbatim>\<open>max_shard_size\<close> and
  \<^verbatim>\<open>clone_tensors\<close> are not parameters of \<^verbatim>\<open>__init__\<close> and which passes no
  \<^verbatim>\<open>options\<close>; with no referenced model it is the \<^verbatim>\<open>IndexError\<close> of
  \<^verbatim>\<open>model_arch_info[0]\<close>; and a seed that \<^verbatim>\<open>set_seed\<close> rejects raises its
  \<^verbatim>\<open>ValueError\<close> before either.
\<close>

theorem run_merge_never_plans:
  assumes "truthy (models cfg) \<or> truthy (slices cfg)"
      and "architecture_infos E (referenced_models E cfg) = Inr infos"
      and "allow_crimes options \<or> same_architecture infos"
  shows "run_merge E cfg out_path options =
           (case seeding options of
              Inl e \<Rightarrow> (Inl e, [])
            | Inr log0 \<Rightarrow>
                (case infos of
                   [] \<Rightarrow> (Inl IndexError, log0)
                 | arch # others \<Rightarrow>
                     (Inl (TypeError (UnexpectedKeyword ''max_shard_size'')),
                      log0 @ [LoaderCacheOptions (lazy_unpickle options)
                                (lora_merge_cache options) (transformers_cache options)])))
         \<and> (\<exists>e. fst (run_merge E cfg out_path options) = Inl e)
         \<and> list_all before_planning (snd (run_merge E cfg out_path options))
         \<and> ''max_shard_size'' \<notin> set MergePlanner_params
         \<and> ''clone_tensors'' \<notin> set MergePlanner_params
         \<and> ''options'' \<in> set MergePlanner_params"
proof (cases "seeding options")
  case (Inl e)
  then show ?thesis
    using assms by (simp add: run_merge_unfold MergePlanner_params_def)
next
  case (Inr log0)
  from seeding_before_planning [OF Inr] Inr assms show ?thesis
    by (auto simp: run_merge_unfold MergePlanner_params_def split: list.splits)
qed

theorem run_merge_never_plans_witness:
  "run_merge example_collaborators gpt2_copy ''out'' seeded_options
     = (Inl (TypeError (UnexpectedKeyword ''max_shard_size'')),
        [SetSeed 42, LoaderCacheOptions False None None])
   \<and> list_all before_planning
         (snd (run_merge example_collaborators gpt2_copy ''out'' seeded_options))
   \<and> run_merge example_collaborators gpt2_copy ''out'' overflowing_seed_options
     = (Inl (ValueError ''Seed must be between 0 and 2**32 - 1''), [])"
proof -
  have requested: "truthy (models gpt2_copy) \<or> truthy (slices gpt2_copy)"
    by (simp add: gpt2_copy_def)
  have compatible: "allow_crimes seeded_options \<or> same_architecture [example_architecture]"
       "allow_crimes overflowing_seed_options \<or> same_architecture [example_architecture]"
    by simp_all
  note raised = run_merge_never_plans
    [OF requested example_infos_copy compatible(1), of "''out''"]
  note rejected = run_merge_never_plans
    [OF requested example_infos_copy compatible(2), of "''out''"]
  have "run_merge example_collaborators gpt2_copy ''out'' seeded_options
        = (Inl (TypeError (UnexpectedKeyword ''max_shard_size'')),
           [SetSeed 42, LoaderCacheOptions False None None])"
    using raised by (simp add: seeding_seeded) (simp add: seeded_options_def default_options_def)
  moreover have "list_all before_planning
      (snd (run_merge example_collaborators gpt2_copy ''out'' seeded_options))"
    using raised by blast
  moreover have "run_merge example_collaborators gpt2_copy ''out'' overflowing_seed_options
     = (Inl (ValueError ''Seed must be between 0 and 2**32 - 1''), [])"
    using rejected by (simp add: seeding_overflowing)
  ultimately show ?thesis by blast
qed

text \<open>
  Claim C6, as stated: \<^verbatim>\<open>run_merge\<close> fails with \<^verbatim>\<open>RuntimeError("No output requested")\<close>
  if and only if the configuration has neither models nor slices. It does not hold for
  every run: the seed is set first, and with a seed that \<^verbatim>\<open>set_seed\<close> rejects (here
  \<open>2\<^sup>3\<^sup>2\<close>) a configuration with neither models nor slices fails with \<^verbatim>\<open>ValueError\<close>
  instead.
\<close>

theorem run_merge_no_output_counterexample:
  "\<not> truthy (models no_output_config) \<and> \<not> truthy (slices no_output_config)
   \<and> run_merge example_collaborators no_output_config ''out'' overflowing_seed_options
       = (Inl (ValueError ''Seed must be between 0 and 2**32 - 1''), [])
   \<and> fst (run_merge example_collaborators no_output_config ''out'' overflowing_seed_options)
       \<noteq> Inl (RuntimeError ''No output requested'')"
  by (simp add: run_merge_unfold seeding_overflowing) (simp add: no_output_config_def gpt2_copy_def)

text \<open>
  Claim C6, amended. \<^verbatim>\<open>run_merge\<close> fails with \<^verbatim>\<open>RuntimeError("No output requested")\<close>
  if and only if the random seed is absent or between 0 and \<open>2\<^sup>3\<^sup>2 - 1\<close> and the
  configuration has neither models nor slices (each absent or empty). When it fails so,
  nothing but the seeding has happened: no plan, no execution.
\<close>

theorem run_merge_no_output:
  "(fst (run_merge E cfg out_path options) = Inl (RuntimeError ''No output requested'')
      \<longleftrightarrow> (\<forall>seed. random_seed options = Some seed \<longrightarrow> 0 \<le> seed \<and> seed \<le> 4294967295)
          \<and> \<not> truthy (models cfg) \<and> \<not> truthy (slices cfg))
   \<and> (fst (run_merge E cfg out_path options) = Inl (RuntimeError ''No output requested'')
      \<longrightarrow> snd (run_merge E cfg out_path options)
            = (case random_seed options of None \<Rightarrow> [] | Some seed \<Rightarrow> [SetSeed seed])
          \<and> list_all before_planning (snd (run_merge E cfg out_path options)))"
proof (cases "random_seed options")
  case None
  then have "seeding options = Inr []" by (simp add: seeding_cases)
  with None show ?thesis
    by (auto simp: run_merge_unfold split: sum.splits list.splits dest: architecture_infos_error)
next
  case (Some seed)
  show ?thesis
  proof (cases "0 \<le> seed \<and> seed \<le> 4294967295")
    case True
    with Some have "seeding options = Inr [SetSeed seed]" by (simp add: seeding_cases)
    with Some True show ?thesis
      by (auto simp: run_merge_unfold split: sum.splits list.splits dest: architecture_infos_error)
  next
    case False
    with Some have "seeding options = Inl (ValueError ''Seed must be between 0 and 2**32 - 1'')"
      by (simp add: seeding_cases)
    with Some False show ?thesis
      by (auto simp: run_merge_unfold)
  qed
qed

theorem run_merge_no_output_witness:
  "fst (run_merge example_collaborators no_output_config ''out'' seeded_options)
     = Inl (RuntimeError ''No output requested'')
   \<and> snd (run_merge example_collaborators no_output_config ''out'' seeded_options) = [SetSeed 42]
   \<and> fst (run_merge example_collaborators gpt2_copy ''out'' seeded_options)
     \<noteq> Inl (RuntimeError ''No output requested'')
   \<and> fst (run_merge example_collaborators no_output_config ''out'' overflowing_seed_options)
     \<noteq> Inl (RuntimeError ''No output requested'')"
proof -
  have seed: "random_seed seeded_options = Some 42"
       "random_seed overflowing_seed_options = Some 4294967296"
    by (simp_all add: seeded_options_def overflowing_seed_options_def default_options_def)
  have none: "\<not> truthy (models no_output_config)" "\<not> truthy (slices no_output_config)"
    and some: "truthy (models gpt2_copy)"
    by (simp_all add: no_output_config_def gpt2_copy_def)
  note a = run_merge_no_output [of example_collaborators no_output_config "''out''" seeded_options]
  note b = run_merge_no_output [of example_collaborators gpt2_copy "''out''" seeded_options]
  note c = run_merge_no_output
    [of example_collaborators no_output_config "''out''" overflowing_seed_options]
  have first: "fst (run_merge example_collaborators no_output_config ''out'' seeded_options)
     = Inl (RuntimeError ''No output requested'')"
    using a seed none by simp
  with a seed have "snd (run_merge example_collaborators no_output_config ''out'' seeded_options)
     = [SetSeed 42]"
    by simp
  moreover have "fst (run_merge example_collaborators gpt2_copy ''out'' seeded_options)
     \<noteq> Inl (RuntimeError ''No output requested'')"
    using b some by blast
  moreover have "fst (run_merge example_collaborators no_output_config ''out'' overflowing_seed_options)
     \<noteq> Inl (RuntimeError ''No output requested'')"
    using c seed by simp
  ultimately show ?thesis using first by blast
qed

text \<open>
  Claim C7. When the architecture infos of the referenced models are not all equal and
  \<^verbatim>\<open>allow_crimes\<close> is false, \<^verbatim>\<open>run_merge\<close> fails before planning, whatever the other
  options: with the \<^verbatim>\<open>ValueError\<close> of a rejected seed, else with the no-output
  \<^verbatim>\<open>RuntimeError\<close> when that check fails, else with the architecture \<^verbatim>\<open>RuntimeError\<close>.
  When \<^verbatim>\<open>allow_crimes\<close> is true the architecture error is never raised.
\<close>

theorem run_merge_architecture_check:
  assumes "architecture_infos E (referenced_models E cfg) = Inr infos"
  shows "(\<not> allow_crimes options \<and> (\<exists>a\<in>set infos. \<exists>b\<in>set infos. a \<noteq> b) \<longrightarrow>
            run_merge E cfg out_path options =
              (case seeding options of
                 Inl e \<Rightarrow> (Inl e, [])
               | Inr log0 \<Rightarrow>
                   (Inl (RuntimeError
                      (if \<not> truthy (models cfg) \<and> \<not> truthy (slices cfg)
                       then ''No output requested''
                       else ''Must specify --allow-crimes to attempt to mix different architectures'')),
                    log0))
            \<and> (\<exists>e. fst (run_merge E cfg out_path options) = Inl e)
            \<and> list_all before_planning (snd (run_merge E cfg out_path options)))
         \<and> (allow_crimes options \<longrightarrow>
              fst (run_merge E cfg out_path options) \<noteq>
                Inl (RuntimeError
                  ''Must specify --allow-crimes to attempt to mix different architectures''))"
proof (cases "seeding options")
  case (Inl e)
  then have "e = ValueError ''Seed must be between 0 and 2**32 - 1''"
    by (auto simp: seeding_cases split: option.splits if_splits)
  with Inl show ?thesis
    by (simp add: run_merge_unfold)
next
  case (Inr log0)
  from seeding_before_planning [OF Inr] Inr assms show ?thesis
    by (auto simp: run_merge_unfold same_architecture_iff split: list.splits)
qed

theorem run_merge_architecture_check_witness:
  "run_merge example_collaborators mixed_config ''out'' seeded_options =
     (Inl (RuntimeError ''Must specify --allow-crimes to attempt to mix different architectures''),
      [SetSeed 42])
   \<and> fst (run_merge example_collaborators mixed_config ''out'' (seeded_options\<lparr>allow_crimes := True\<rparr>))
       \<noteq> Inl (RuntimeError ''Must specify --allow-crimes to attempt to mix different architectures'')"
proof -
  have "\<exists>a\<in>set [example_architecture, other_architecture].
          \<exists>b\<in>set [example_architecture, other_architecture]. a \<noteq> b"
    by (rule bexI [of _ example_architecture], rule bexI [of _ other_architecture])
       (simp_all add: architectures_differ)
  moreover have "\<not> allow_crimes seeded_options"
    by (simp add: seeded_options_def default_options_def)
  ultimately have strict: "\<not> allow_crimes seeded_options
      \<and> (\<exists>a\<in>set [example_architecture, other_architecture].
            \<exists>b\<in>set [example_architecture, other_architecture]. a \<noteq> b)"
    by (rule conjI [rotated])
  have requested: "truthy (models mixed_config)"
    by (simp add: mixed_config_def)
  have permissive: "allow_crimes (seeded_options\<lparr>allow_crimes := True\<rparr>)"
    by simp
  from run_merge_architecture_check [OF example_infos_mixed, of seeded_options "''out''"] strict
  have "run_merge example_collaborators mixed_config ''out'' seeded_options =
          (case seeding seeded_options of
             Inl e \<Rightarrow> (Inl e, [])
           | Inr log0 \<Rightarrow>
               (Inl (RuntimeError
                  (if \<not> truthy (models mixed_config) \<and> \<not> truthy (slices mixed_config)
                   then ''No output requested''
                   else ''Must specify --allow-crimes to attempt to mix different architectures'')),
                log0))"
    by blast
  then have "run_merge example_collaborators mixed_config ''out'' seeded_options =
     (Inl (RuntimeError ''Must specify --allow-crimes to attempt to mix different architectures''),
      [SetSeed 42])"
    using requested by (simp add: seeding_seeded)
  moreover
  from run_merge_architecture_check
         [OF example_infos_mixed, of "seeded_options\<lparr>allow_crimes := True\<rparr>" "''out''"] permissive
  have "fst (run_merge example_collaborators mixed_config ''out'' (seeded_options\<lparr>allow_crimes := True\<rparr>))
          \<noteq> Inl (RuntimeError ''Must specify --allow-crimes to attempt to mix different architectures'')"
    by blast
  ultimately show ?thesis by (rule conjI)
qed

end
